theory Spec2Isabelle
  imports Main
begin

section \<open>Configuration resolution of the export service (config/config.go)\<close>

text \<open>
  The package has one accessor, \<open>Get\<close>, which builds the process-wide \<open>ExportConfig\<close> once:
  defaults are registered with viper, environment variables override them, and when Clowder
  is enabled the values of the Clowder application configuration replace the database,
  broker, logging and object-storage settings. The embedding keeps the structure of the
  source: the Go structs are records, pointers are options (\<open>None\<close> is \<open>nil\<close>), a panic is
  a value of type \<open>panic\<close>, and the package variables \<open>config\<close> and \<open>doOnce\<close> are
  the fields of an explicit process state.
\<close>

subsection \<open>Go library functions used by the source\<close>

text \<open>The process environment: a variable is unset (\<open>None\<close>) or set to a string, possibly empty.\<close>

type_synonym environ = "string \<rightharpoonup> string"

text \<open>\<open>os.Getenv\<close>: the value of the variable, empty when it is unset.\<close>

definition Getenv :: "environ \<Rightarrow> string \<Rightarrow> string" where
  "Getenv env k = (case env k of None \<Rightarrow> [] | Some v \<Rightarrow> v)"

text \<open>
  \<open>strings.Split\<close>: the pieces of \<open>s\<close> between the occurrences of \<open>sep\<close>. The scan keeps the
  piece read so far; an empty separator splits after every byte (Go splits after every
  UTF-8 sequence, the same on ASCII text).
\<close>

fun splitFrom :: "string \<Rightarrow> string \<Rightarrow> string \<Rightarrow> string list" where
  "splitFrom sep piece [] = [piece]"
| "splitFrom sep piece (c # cs) =
     (if sep \<noteq> [] \<and> take (length sep) (c # cs) = sep
      then piece # splitFrom sep [] (drop (length sep) (c # cs))
      else splitFrom sep (piece @ [c]) cs)"

definition Split :: "string \<Rightarrow> string \<Rightarrow> string list" where
  "Split s sep = (if sep = [] then map (\<lambda>c. [c]) s else splitFrom sep [] s)"

text \<open>\<open>strings.ToUpper\<close> and \<open>strings.ToLower\<close> on ASCII letters; other bytes are kept.\<close>

definition lowerLetters :: string where
  "lowerLetters = ''abcdefghijklmnopqrstuvwxyz''"

definition upperLetters :: string where
  "upperLetters = ''ABCDEFGHIJKLMNOPQRSTUVWXYZ''"

definition upperChar :: "char \<Rightarrow> char" where
  "upperChar c = (case map_of (zip lowerLetters upperLetters) c of None \<Rightarrow> c | Some u \<Rightarrow> u)"

definition lowerChar :: "char \<Rightarrow> char" where
  "lowerChar c = (case map_of (zip upperLetters lowerLetters) c of None \<Rightarrow> c | Some l \<Rightarrow> l)"

definition ToUpper :: "string \<Rightarrow> string" where
  "ToUpper s = map upperChar s"

definition ToLower :: "string \<Rightarrow> string" where
  "ToLower s = map lowerChar s"

text \<open>\<open>strconv.Itoa\<close>: the decimal numeral of an integer, as \<open>%d\<close> and \<open>fmt.Sprint\<close> print it.\<close>

definition digitChar :: "nat \<Rightarrow> char" where
  "digitChar d = ''0123456789'' ! d"

fun natDigits :: "nat \<Rightarrow> string" where
  "natDigits n = (if n < 10 then [digitChar n] else natDigits (n div 10) @ [digitChar (n mod 10)])"

declare natDigits.simps [simp del]

definition Itoa :: "int \<Rightarrow> string" where
  "Itoa i = (if i < 0 then CHR ''-'' # natDigits (nat (- i)) else natDigits (nat i))"

text \<open>
  \<open>fmt.Sprintf\<close> for the verbs \<open>%s\<close>, \<open>%d\<close> and \<open>%%\<close>, without flags or width. An
  operand of the wrong type, a missing operand, an unknown verb and operands left over
  are printed the way \<open>fmt\<close> reports them.
\<close>

datatype operand = StrArg string | IntArg int

fun typed :: "operand \<Rightarrow> string" where
  "typed (StrArg s) = ''string='' @ s"
| "typed (IntArg i) = ''int='' @ Itoa i"

fun extraOperands :: "operand list \<Rightarrow> string" where
  "extraOperands [] = []"
| "extraOperands [a] = typed a"
| "extraOperands (a # b # bs) = typed a @ '', '' @ extraOperands (b # bs)"

definition badVerb :: "char \<Rightarrow> operand \<Rightarrow> string" where
  "badVerb v a = ''%!'' @ [v] @ ''('' @ typed a @ '')''"

fun Sprintf :: "string \<Rightarrow> operand list \<Rightarrow> string" where
  "Sprintf [] args = (if args = [] then [] else ''%!(EXTRA '' @ extraOperands args @ '')'')"
| "Sprintf [c] args = (if c = CHR ''%'' then ''%!(NOVERB)'' else [c]) @ Sprintf [] args"
| "Sprintf (c # v # rest) args =
     (if c \<noteq> CHR ''%'' then c # Sprintf (v # rest) args
      else if v = CHR ''%'' then CHR ''%'' # Sprintf rest args
      else (case args of
              [] \<Rightarrow> ''%!'' @ [v] @ ''(MISSING)'' @ Sprintf rest []
            | a # as \<Rightarrow>
                (case a of
                   StrArg s \<Rightarrow> (if v = CHR ''s'' then s else badVerb v a)
                 | IntArg i \<Rightarrow> (if v = CHR ''d'' then Itoa i else badVerb v a))
                @ Sprintf rest as))"

text \<open>
  The two string conversions whose full definition lies outside the repository are
  parameters of the model: \<open>cast.ToInt\<close> on a string (\<open>strconv.ParseInt\<close> with base
  prefixes, zero when the string is no numeral) and \<open>strings.Fields\<close> (the pieces between
  runs of Unicode white space). Every general theorem below holds for all such functions.
\<close>

record textlib =
  ToIntString :: "string \<Rightarrow> int"
  Fields :: "string \<Rightarrow> string list"

text \<open>\<open>strconv.ParseBool\<close> as \<open>cast.ToBool\<close> uses it: any other string gives \<open>false\<close>.\<close>

definition ToBoolString :: "string \<Rightarrow> bool" where
  "ToBoolString s = (s \<in> set [''1'', ''t'', ''T'', ''TRUE'', ''true'', ''True''])"

subsection \<open>viper: defaults and automatic environment lookup\<close>

text \<open>The values viper stores (Go's \<open>interface{}\<close>), as far as the source puts them in.\<close>

datatype iface = IInt int | IBool bool | IString string | IStrings "string list"

record viper =
  defaults :: "string \<rightharpoonup> iface"
  automaticEnvApplied :: bool

definition viperNew :: viper where
  "viperNew = \<lparr>defaults = Map.empty, automaticEnvApplied = False\<rparr>"

text \<open>\<open>SetDefault\<close>: keys are case-insensitive, stored in lower case.\<close>

definition SetDefault :: "string \<Rightarrow> iface \<Rightarrow> viper \<Rightarrow> viper" where
  "SetDefault key v vp = vp\<lparr>defaults := (defaults vp)(ToLower key \<mapsto> v)\<rparr>"

definition AutomaticEnv :: "viper \<Rightarrow> viper" where
  "AutomaticEnv vp = vp\<lparr>automaticEnvApplied := True\<rparr>"

text \<open>
  viper's \<open>getEnv\<close>: a variable that is set but empty counts as unset (\<open>AllowEmptyEnv\<close> is
  off unless the program turns it on, and the source does not).
\<close>

definition getEnv :: "environ \<Rightarrow> string \<Rightarrow> string option" where
  "getEnv env k = (case env k of None \<Rightarrow> None | Some v \<Rightarrow> if v = [] then None else Some v)"

text \<open>
  \<open>viper.Get\<close>: with automatic environment lookup the variable named by the upper-cased key
  comes first, then the default; \<open>None\<close> is Go's \<open>nil\<close>.
\<close>

definition viperGet :: "environ \<Rightarrow> viper \<Rightarrow> string \<Rightarrow> iface option" where
  "viperGet env vp key =
     (case (if automaticEnvApplied vp then getEnv env (ToUpper key) else None) of
        Some s \<Rightarrow> Some (IString s)
      | None \<Rightarrow> defaults vp (ToLower key))"

text \<open>The conversions of the cast package; a value that does not convert gives the zero value.\<close>

fun ToInt :: "textlib \<Rightarrow> iface option \<Rightarrow> int" where
  "ToInt L (Some (IInt i)) = i"
| "ToInt L (Some (IBool b)) = (if b then 1 else 0)"
| "ToInt L (Some (IString s)) = ToIntString L s"
| "ToInt L (Some (IStrings xs)) = 0"
| "ToInt L None = 0"

fun ToBool :: "iface option \<Rightarrow> bool" where
  "ToBool (Some (IInt i)) = (i \<noteq> 0)"
| "ToBool (Some (IBool b)) = b"
| "ToBool (Some (IString s)) = ToBoolString s"
| "ToBool (Some (IStrings xs)) = False"
| "ToBool None = False"

fun ToString :: "iface option \<Rightarrow> string" where
  "ToString (Some (IInt i)) = Itoa i"
| "ToString (Some (IBool b)) = (if b then ''true'' else ''false'')"
| "ToString (Some (IString s)) = s"
| "ToString (Some (IStrings xs)) = []"
| "ToString None = []"

fun ToStringSlice :: "textlib \<Rightarrow> iface option \<Rightarrow> string list" where
  "ToStringSlice L (Some (IInt i)) = [Itoa i]"
| "ToStringSlice L (Some (IBool b)) = [if b then ''true'' else ''false'']"
| "ToStringSlice L (Some (IString s)) = Fields L s"
| "ToStringSlice L (Some (IStrings xs)) = xs"
| "ToStringSlice L None = []"

definition GetInt :: "textlib \<Rightarrow> environ \<Rightarrow> viper \<Rightarrow> string \<Rightarrow> int" where
  "GetInt L env vp key = ToInt L (viperGet env vp key)"

definition GetBool :: "environ \<Rightarrow> viper \<Rightarrow> string \<Rightarrow> bool" where
  "GetBool env vp key = ToBool (viperGet env vp key)"

definition GetString :: "environ \<Rightarrow> viper \<Rightarrow> string \<Rightarrow> string" where
  "GetString env vp key = ToString (viperGet env vp key)"

definition GetStringSlice :: "textlib \<Rightarrow> environ \<Rightarrow> viper \<Rightarrow> string \<Rightarrow> string list" where
  "GetStringSlice L env vp key = ToStringSlice L (viperGet env vp key)"

subsection \<open>The Clowder application configuration (app-common-go)\<close>

text \<open>
  The types of the Clowder package, with the fields the source reads. A field the source
  dereferences or compares with \<open>nil\<close> is a pointer in Go and an option here.
\<close>

record DatabaseConfig =
  Hostname :: string
  Name :: string
  Password :: string
  Port :: int
  RdsCa :: "string option"
  SslMode :: string
  Username :: string

record KafkaSASLConfig =
  Password :: "string option"
  SaslMechanism :: "string option"
  Username :: "string option"

record BrokerConfig =
  Authtype :: "string option"
  Cacert :: "string option"
  Hostname :: string
  Sasl :: "KafkaSASLConfig option"
  SecurityProtocol :: "string option"

record KafkaConfig =
  Brokers :: "BrokerConfig list"

record CloudWatchConfig =
  AccessKeyId :: string
  LogGroup :: string
  Region :: string
  SecretAccessKey :: string

record LoggingConfig =
  Cloudwatch :: "CloudWatchConfig option"

record ObjectStoreBucket =
  AccessKey :: "string option"
  Name :: string
  RequestedName :: string
  SecretKey :: "string option"

record ObjectStoreConfig =
  Buckets :: "ObjectStoreBucket list"
  Hostname :: string
  Port :: int
  Tls :: bool

record AppConfig =
  Database :: "DatabaseConfig option"
  Kafka :: "KafkaConfig option"
  Logging :: LoggingConfig
  MetricsPort :: int
  ObjectStore :: "ObjectStoreConfig option"
  PrivatePort :: "int option"
  PublicPort :: "int option"

text \<open>
  What the Clowder package gives the source: \<open>IsClowderEnabled()\<close>, the package variables
  \<open>LoadedConfig\<close>, \<open>ObjectBuckets\<close> and \<open>KafkaServers\<close>, and the two methods that write a
  CA bundle to a file and return its path or an error (\<open>Inl\<close> carries the error's text).
\<close>

record clowder =
  IsClowderEnabled :: bool
  LoadedConfig :: "AppConfig option"
  ObjectBuckets :: "string \<rightharpoonup> ObjectStoreBucket"
  KafkaServers :: "string list"
  RdsCa :: "AppConfig \<Rightarrow> string + string"
  KafkaCa :: "AppConfig \<Rightarrow> BrokerConfig \<Rightarrow> string + string"

text \<open>Reading a Go map at a key it does not hold gives the zero value.\<close>

definition zero_ObjectStoreBucket :: ObjectStoreBucket where
  "zero_ObjectStoreBucket =
     \<lparr>ObjectStoreBucket.AccessKey = None, ObjectStoreBucket.Name = [],
      ObjectStoreBucket.RequestedName = [], ObjectStoreBucket.SecretKey = None\<rparr>"

subsection \<open>The configuration structs of the source\<close>

record dbSSLConfig =
  RdsCa :: "string option"
  SSLMode :: string

record dbConfig =
  User :: string
  Password :: string
  Hostname :: string
  Port :: string
  Name :: string
  SSLCfg :: dbSSLConfig

record loggingConfig =
  AccessKeyID :: string
  SecretAccessKey :: string
  LogGroup :: string
  Region :: string

record kafkaSSLConfig =
  CA :: string
  Username :: string
  Password :: string
  SASLMechanism :: string
  Protocol :: string

record kafkaConfig =
  Brokers :: "string list"
  GroupID :: string
  ExportsTopic :: string
  SSLConfig :: kafkaSSLConfig
  EventSource :: string
  EventSpecVersion :: string
  EventType :: string
  EventDataSchema :: string

record storageConfig =
  Bucket :: string
  Endpoint :: string
  AccessKey :: string
  SecretKey :: string
  UseSSL :: bool

record ExportConfig =
  Hostname :: string
  PublicPort :: int
  MetricsPort :: int
  PrivatePort :: int
  Logging :: "loggingConfig option"
  LogLevel :: string
  Debug :: bool
  DBConfig :: dbConfig
  StorageConfig :: storageConfig
  KafkaConfig :: kafkaConfig
  OpenAPIPrivatePath :: string
  OpenAPIPublicPath :: string
  Psks :: "string list"
  ExportExpiryDays :: int

text \<open>The zero values of the structs: what a field holds that a struct literal leaves out.\<close>

definition zero_dbSSLConfig :: dbSSLConfig where
  "zero_dbSSLConfig = \<lparr>dbSSLConfig.RdsCa = None, dbSSLConfig.SSLMode = []\<rparr>"

definition zero_dbConfig :: dbConfig where
  "zero_dbConfig =
     \<lparr>dbConfig.User = [], dbConfig.Password = [], dbConfig.Hostname = [], dbConfig.Port = [],
      dbConfig.Name = [], dbConfig.SSLCfg = zero_dbSSLConfig\<rparr>"

definition zero_kafkaSSLConfig :: kafkaSSLConfig where
  "zero_kafkaSSLConfig =
     \<lparr>kafkaSSLConfig.CA = [], kafkaSSLConfig.Username = [], kafkaSSLConfig.Password = [],
      kafkaSSLConfig.SASLMechanism = [], kafkaSSLConfig.Protocol = []\<rparr>"

definition zero_kafkaConfig :: kafkaConfig where
  "zero_kafkaConfig =
     \<lparr>kafkaConfig.Brokers = [], kafkaConfig.GroupID = [], kafkaConfig.ExportsTopic = [],
      kafkaConfig.SSLConfig = zero_kafkaSSLConfig, kafkaConfig.EventSource = [],
      kafkaConfig.EventSpecVersion = [], kafkaConfig.EventType = [],
      kafkaConfig.EventDataSchema = []\<rparr>"

definition zero_storageConfig :: storageConfig where
  "zero_storageConfig =
     \<lparr>storageConfig.Bucket = [], storageConfig.Endpoint = [], storageConfig.AccessKey = [],
      storageConfig.SecretKey = [], storageConfig.UseSSL = False\<rparr>"

definition zero_ExportConfig :: ExportConfig where
  "zero_ExportConfig =
     \<lparr>ExportConfig.Hostname = [], ExportConfig.PublicPort = 0, ExportConfig.MetricsPort = 0,
      ExportConfig.PrivatePort = 0, ExportConfig.Logging = None, ExportConfig.LogLevel = [],
      ExportConfig.Debug = False, ExportConfig.DBConfig = zero_dbConfig,
      ExportConfig.StorageConfig = zero_storageConfig,
      ExportConfig.KafkaConfig = zero_kafkaConfig, ExportConfig.OpenAPIPrivatePath = [],
      ExportConfig.OpenAPIPublicPath = [], ExportConfig.Psks = [],
      ExportConfig.ExportExpiryDays = 0\<rparr>"

subsection \<open>buildBaseHttpUrl and getRdsCaPath\<close>

definition buildBaseHttpUrl :: "bool \<Rightarrow> string \<Rightarrow> int \<Rightarrow> string" where
  "buildBaseHttpUrl tlsEnabled hostname port =
     (let protocol = (if tlsEnabled then ''https'' else ''http'')
      in Sprintf ''%s://%s:%d'' [StrArg protocol, StrArg hostname, IntArg port])"

text \<open>
  A panic: one the source raises with a message, or one of the two run-time panics its
  expressions can raise (a nil pointer dereferenced, a slice indexed past its end).
\<close>

datatype panic = Panic string | NilDereference | IndexOutOfRange

definition deref :: "'a option \<Rightarrow> panic + 'a" where
  "deref p = (case p of None \<Rightarrow> Inl NilDereference | Some v \<Rightarrow> Inr v)"

definition first :: "'a list \<Rightarrow> panic + 'a" where
  "first xs = (case xs of [] \<Rightarrow> Inl IndexOutOfRange | x # _ \<Rightarrow> Inr x)"

text \<open>
  \<open>getRdsCaPath\<close> returns a pointer and an error: \<open>Inr (Inl err)\<close> is \<open>(nil, err)\<close> and
  \<open>Inr (Inr p)\<close> is \<open>(p, nil)\<close>. \<open>cfg.Database\<close> is a pointer, so reading through it can panic.
\<close>

definition getRdsCaPath :: "clowder \<Rightarrow> AppConfig \<Rightarrow> panic + (string + string option)" where
  "getRdsCaPath cl cfg =
     (case deref (AppConfig.Database cfg) of
        Inl p \<Rightarrow> Inl p
      | Inr db \<Rightarrow>
          (if DatabaseConfig.RdsCa db \<noteq> None
           then (case clowder.RdsCa cl cfg of
                   Inl err \<Rightarrow> Inr (Inl err)
                 | Inr rdsCaPathValue \<Rightarrow> Inr (Inr (Some rdsCaPathValue)))
           else Inr (Inr None)))"

subsection \<open>The initialisation that Get runs once\<close>

text \<open>
  Lines 91 to 123: the viper instance \<open>options\<close> with its defaults, then \<open>AutomaticEnv\<close>.
  Two defaults are computed from the environment when they are registered.
\<close>

definition ExportTopic :: string where
  "ExportTopic = ''platform.export.requests''"

definition options :: "environ \<Rightarrow> viper" where
  "options env =
     AutomaticEnv (foldl (\<lambda>vp (key, v). SetDefault key v vp) viperNew
       [(''PUBLIC_PORT'', IInt 8000),
        (''METRICS_PORT'', IInt 9000),
        (''PRIVATE_PORT'', IInt 10000),
        (''LOG_LEVEL'', IString ''INFO''),
        (''DEBUG'', IBool False),
        (''OPEN_API_FILE_PATH'', IString ''./static/spec/openapi.json''),
        (''OPEN_API_PRIVATE_PATH'', IString ''./static/spec/private.json''),
        (''PSKS'', IStrings (Split (Getenv env ''EXPORTS_PSKS'') '','')),
        (''EXPORT_EXPIRY_DAYS'', IInt 7),
        (''PGSQL_USER'', IString ''postgres''),
        (''PGSQL_PASSWORD'', IString ''postgres''),
        (''PGSQL_HOSTNAME'', IString ''localhost''),
        (''PGSQL_PORT'', IString ''15433''),
        (''PGSQL_DATABASE'', IString ''postgres''),
        (''MINIO_HOST'', IString ''localhost''),
        (''MINIO_PORT'', IString ''9099''),
        (''MINIO_SSL'', IBool False),
        (''KAFKA_ANNOUNCE_TOPIC'', IString ExportTopic),
        (''KAFKA_BROKERS'', IStrings (Split (Getenv env ''KAFKA_BROKERS'') '','')),
        (''KAFKA_GROUP_ID'', IString ''export''),
        (''KAFKA_EVENT_SOURCE'', IString ''urn:redhat:source:export-service''),
        (''KAFKA_EVENT_SPECVERSION'', IString ''1.0''),
        (''KAFKA_EVENT_TYPE'', IString ''com.redhat.console.export-service.request''),
        (''KAFKA_EVENT_DATASCHEMA'', IString
          ''https://github.com/RedHatInsights/event-schemas/blob/main/schemas/apps/export-service/v1/export-request.json'')])"

text \<open>Lines 125 and 126: a second instance without defaults.\<close>

definition kubenv :: viper where
  "kubenv = AutomaticEnv viperNew"

text \<open>
  Lines 128 to 168: the struct is allocated with the top-level fields, then the database,
  storage and broker structs are assigned. Nothing here can panic.
\<close>

definition envConfig :: "textlib \<Rightarrow> environ \<Rightarrow> ExportConfig" where
  "envConfig L env =
     (let opts = options env;
          c = zero_ExportConfig
            \<lparr>ExportConfig.Hostname := GetString env kubenv ''Hostname'',
             ExportConfig.PublicPort := GetInt L env opts ''PUBLIC_PORT'',
             ExportConfig.MetricsPort := GetInt L env opts ''METRICS_PORT'',
             ExportConfig.PrivatePort := GetInt L env opts ''PRIVATE_PORT'',
             ExportConfig.Debug := GetBool env opts ''DEBUG'',
             ExportConfig.LogLevel := GetString env opts ''LOG_LEVEL'',
             ExportConfig.OpenAPIPublicPath := GetString env opts ''OPEN_API_FILE_PATH'',
             ExportConfig.OpenAPIPrivatePath := GetString env opts ''OPEN_API_PRIVATE_PATH'',
             ExportConfig.Psks := GetStringSlice L env opts ''PSKS'',
             ExportConfig.ExportExpiryDays := GetInt L env opts ''EXPORT_EXPIRY_DAYS''\<rparr>;
          c = c\<lparr>ExportConfig.DBConfig :=
                 \<lparr>dbConfig.User = GetString env opts ''PGSQL_USER'',
                  dbConfig.Password = GetString env opts ''PGSQL_PASSWORD'',
                  dbConfig.Hostname = GetString env opts ''PGSQL_HOSTNAME'',
                  dbConfig.Port = GetString env opts ''PGSQL_PORT'',
                  dbConfig.Name = GetString env opts ''PGSQL_DATABASE'',
                  dbConfig.SSLCfg = zero_dbSSLConfig\<lparr>dbSSLConfig.SSLMode := ''disable''\<rparr>\<rparr>\<rparr>;
          c = c\<lparr>ExportConfig.StorageConfig :=
                 \<lparr>storageConfig.Bucket = ''exports-bucket'',
                  storageConfig.Endpoint =
                    buildBaseHttpUrl (GetBool env opts ''MINIO_SSL'')
                      (GetString env opts ''MINIO_HOST'') (GetInt L env opts ''MINIO_PORT''),
                  storageConfig.AccessKey = GetString env opts ''AWS_ACCESS_KEY'',
                  storageConfig.SecretKey = GetString env opts ''AWS_SECRET_ACCESS_KEY'',
                  storageConfig.UseSSL = GetBool env opts ''MINIO_SSL''\<rparr>\<rparr>
      in c\<lparr>ExportConfig.KafkaConfig :=
             zero_kafkaConfig
               \<lparr>kafkaConfig.Brokers := GetStringSlice L env opts ''KAFKA_BROKERS'',
                kafkaConfig.GroupID := GetString env opts ''KAFKA_GROUP_ID'',
                kafkaConfig.ExportsTopic := GetString env opts ''KAFKA_ANNOUNCE_TOPIC'',
                kafkaConfig.EventSource := GetString env opts ''KAFKA_EVENT_SOURCE'',
                kafkaConfig.EventSpecVersion := GetString env opts ''KAFKA_EVENT_SPECVERSION'',
                kafkaConfig.EventType := GetString env opts ''KAFKA_EVENT_TYPE'',
                kafkaConfig.EventDataSchema := GetString env opts ''KAFKA_EVENT_DATASCHEMA''\<rparr>\<rparr>)"

text \<open>
  Lines 170 to 232 run statement by statement on the struct \<open>config\<close> points to. A step
  evaluates its right-hand side, which may panic, and then stores; a panic leaves the
  struct as the earlier steps wrote it.
\<close>

type_synonym step = "ExportConfig \<Rightarrow> panic option \<times> ExportConfig"

definition assign :: "panic + 'a \<Rightarrow> ('a \<Rightarrow> ExportConfig \<Rightarrow> ExportConfig) \<Rightarrow> step" where
  "assign rhs store c = (case rhs of Inl p \<Rightarrow> (Some p, c) | Inr v \<Rightarrow> (None, store v c))"

fun steps :: "step list \<Rightarrow> step" where
  "steps [] c = (None, c)"
| "steps (f # fs) c = (case f c of (Some p, c') \<Rightarrow> (Some p, c') | (None, c') \<Rightarrow> steps fs c')"

text \<open>Lines 173 to 175.\<close>

definition setPorts :: "AppConfig \<Rightarrow> step" where
  "setPorts cfg =
     steps
       [assign (deref (AppConfig.PublicPort cfg)) (\<lambda>v c. c\<lparr>ExportConfig.PublicPort := v\<rparr>),
        assign (Inr (AppConfig.MetricsPort cfg)) (\<lambda>v c. c\<lparr>ExportConfig.MetricsPort := v\<rparr>),
        assign (deref (AppConfig.PrivatePort cfg)) (\<lambda>v c. c\<lparr>ExportConfig.PrivatePort := v\<rparr>)]"

text \<open>Lines 180 to 195.\<close>

definition platformDB :: "clowder \<Rightarrow> AppConfig \<Rightarrow> panic + dbConfig" where
  "platformDB cl cfg =
     (case getRdsCaPath cl cfg of
        Inl p \<Rightarrow> Inl p
      | Inr (Inl err) \<Rightarrow> Inl (Panic (''RDS CA failed to write: '' @ err))
      | Inr (Inr rdsCaPath) \<Rightarrow>
          (case deref (AppConfig.Database cfg) of
             Inl p \<Rightarrow> Inl p
           | Inr db \<Rightarrow>
               Inr \<lparr>dbConfig.User = DatabaseConfig.Username db,
                    dbConfig.Password = DatabaseConfig.Password db,
                    dbConfig.Hostname = DatabaseConfig.Hostname db,
                    dbConfig.Port = Itoa (DatabaseConfig.Port db),
                    dbConfig.Name = DatabaseConfig.Name db,
                    dbConfig.SSLCfg =
                      \<lparr>dbSSLConfig.RdsCa = rdsCaPath,
                       dbSSLConfig.SSLMode = DatabaseConfig.SslMode db\<rparr>\<rparr>))"

definition setDBConfig :: "clowder \<Rightarrow> AppConfig \<Rightarrow> step" where
  "setDBConfig cl cfg = assign (platformDB cl cfg) (\<lambda>v c. c\<lparr>ExportConfig.DBConfig := v\<rparr>)"

text \<open>Line 197.\<close>

definition setBrokers :: "clowder \<Rightarrow> step" where
  "setBrokers cl =
     assign (Inr (clowder.KafkaServers cl))
       (\<lambda>v c. c\<lparr>ExportConfig.KafkaConfig := (ExportConfig.KafkaConfig c)\<lparr>kafkaConfig.Brokers := v\<rparr>\<rparr>)"

text \<open>Lines 204 to 207: the protocol the broker declares, or the default.\<close>

definition securityProtocol :: "BrokerConfig \<Rightarrow> string" where
  "securityProtocol broker =
     (case BrokerConfig.SecurityProtocol broker of
        None \<Rightarrow> ''sasl_ssl''
      | Some declared \<Rightarrow> declared)"

text \<open>Lines 200 to 214, the body of \<open>if broker.Authtype != nil\<close>.\<close>

definition brokerSSLConfig :: "clowder \<Rightarrow> AppConfig \<Rightarrow> BrokerConfig \<Rightarrow> panic + kafkaSSLConfig" where
  "brokerSSLConfig cl cfg broker =
     (case clowder.KafkaCa cl cfg broker of
        Inl err \<Rightarrow> Inl (Panic ''Kafka CA failed to write'')
      | Inr caPath \<Rightarrow>
     (case deref (BrokerConfig.Sasl broker) of
        Inl p \<Rightarrow> Inl p
      | Inr sasl \<Rightarrow>
     (case deref (KafkaSASLConfig.Username sasl) of
        Inl p \<Rightarrow> Inl p
      | Inr username \<Rightarrow>
     (case deref (KafkaSASLConfig.Password sasl) of
        Inl p \<Rightarrow> Inl p
      | Inr password \<Rightarrow>
     (case deref (KafkaSASLConfig.SaslMechanism sasl) of
        Inl p \<Rightarrow> Inl p
      | Inr mechanism \<Rightarrow>
          Inr \<lparr>kafkaSSLConfig.CA = caPath,
               kafkaSSLConfig.Username = username,
               kafkaSSLConfig.Password = password,
               kafkaSSLConfig.SASLMechanism = mechanism,
               kafkaSSLConfig.Protocol = securityProtocol broker\<rparr>)))))"

text \<open>
  Lines 198 to 215: the first broker decides. \<open>Inr None\<close> is the run that skips the
  \<open>if\<close>, so that nothing is stored.
\<close>

definition platformKafkaSSL :: "clowder \<Rightarrow> AppConfig \<Rightarrow> panic + kafkaSSLConfig option" where
  "platformKafkaSSL cl cfg =
     (case deref (AppConfig.Kafka cfg) of
        Inl p \<Rightarrow> Inl p
      | Inr kafka \<Rightarrow>
     (case first (KafkaConfig.Brokers kafka) of
        Inl p \<Rightarrow> Inl p
      | Inr broker \<Rightarrow>
          if BrokerConfig.Authtype broker \<noteq> None
          then (case brokerSSLConfig cl cfg broker of
                  Inl p \<Rightarrow> Inl p
                | Inr ssl \<Rightarrow> Inr (Some ssl))
          else Inr None))"

definition setKafkaSSL :: "clowder \<Rightarrow> AppConfig \<Rightarrow> step" where
  "setKafkaSSL cl cfg =
     assign (platformKafkaSSL cl cfg)
       (\<lambda>v c. case v of
                 None \<Rightarrow> c
               | Some ssl \<Rightarrow>
                   c\<lparr>ExportConfig.KafkaConfig :=
                       (ExportConfig.KafkaConfig c)\<lparr>kafkaConfig.SSLConfig := ssl\<rparr>\<rparr>)"

text \<open>Lines 217 to 222.\<close>

definition platformLogging :: "AppConfig \<Rightarrow> panic + loggingConfig" where
  "platformLogging cfg =
     (case deref (LoggingConfig.Cloudwatch (AppConfig.Logging cfg)) of
        Inl p \<Rightarrow> Inl p
      | Inr cw \<Rightarrow>
          Inr \<lparr>loggingConfig.AccessKeyID = CloudWatchConfig.AccessKeyId cw,
               loggingConfig.SecretAccessKey = CloudWatchConfig.SecretAccessKey cw,
               loggingConfig.LogGroup = CloudWatchConfig.LogGroup cw,
               loggingConfig.Region = CloudWatchConfig.Region cw\<rparr>)"

definition setLogging :: "AppConfig \<Rightarrow> step" where
  "setLogging cfg = assign (platformLogging cfg) (\<lambda>v c. c\<lparr>ExportConfig.Logging := Some v\<rparr>)"

text \<open>Lines 224 to 231.\<close>

definition platformStorage :: "ObjectStoreBucket \<Rightarrow> AppConfig \<Rightarrow> panic + storageConfig" where
  "platformStorage exportBucketInfo cfg =
     (case deref (AppConfig.ObjectStore cfg) of
        Inl p \<Rightarrow> Inl p
      | Inr store \<Rightarrow>
     (case first (ObjectStoreConfig.Buckets store) of
        Inl p \<Rightarrow> Inl p
      | Inr bucket \<Rightarrow>
     (case deref (ObjectStoreBucket.AccessKey bucket) of
        Inl p \<Rightarrow> Inl p
      | Inr accessKey \<Rightarrow>
     (case deref (ObjectStoreBucket.SecretKey bucket) of
        Inl p \<Rightarrow> Inl p
      | Inr secretKey \<Rightarrow>
          Inr \<lparr>storageConfig.Bucket = ObjectStoreBucket.RequestedName exportBucketInfo,
               storageConfig.Endpoint =
                 buildBaseHttpUrl (ObjectStoreConfig.Tls store)
                   (ObjectStoreConfig.Hostname store) (ObjectStoreConfig.Port store),
               storageConfig.AccessKey = accessKey,
               storageConfig.SecretKey = secretKey,
               storageConfig.UseSSL = ObjectStoreConfig.Tls store\<rparr>))))"

definition setStorage :: "ObjectStoreBucket \<Rightarrow> AppConfig \<Rightarrow> step" where
  "setStorage exportBucketInfo cfg =
     assign (platformStorage exportBucketInfo cfg)
       (\<lambda>v c. c\<lparr>ExportConfig.StorageConfig := v\<rparr>)"

text \<open>Lines 171 to 231, the body of \<open>if clowder.IsClowderEnabled()\<close>.\<close>

definition exportBucketInfo :: "environ \<Rightarrow> clowder \<Rightarrow> ObjectStoreBucket" where
  "exportBucketInfo env cl =
     (let exportBucket = GetString env (options env) ''EXPORT_SERVICE_BUCKET''
      in case clowder.ObjectBuckets cl exportBucket of
           None \<Rightarrow> zero_ObjectStoreBucket
         | Some b \<Rightarrow> b)"

definition clowderConfig :: "environ \<Rightarrow> clowder \<Rightarrow> step" where
  "clowderConfig env cl c =
     (case deref (clowder.LoadedConfig cl) of
        Inl p \<Rightarrow> (Some p, c)
      | Inr cfg \<Rightarrow>
          steps [setPorts cfg, setDBConfig cl cfg, setBrokers cl, setKafkaSSL cl cfg,
                 setLogging cfg, setStorage (exportBucketInfo env cl) cfg] c)"

text \<open>
  The function passed to \<open>doOnce.Do\<close>: the panic it ends with, if any, and the struct as
  it then stands.
\<close>

definition initialize :: "textlib \<Rightarrow> environ \<Rightarrow> clowder \<Rightarrow> panic option \<times> ExportConfig" where
  "initialize L env cl =
     (let c = envConfig L env
      in if clowder.IsClowderEnabled cl then clowderConfig env cl c else (None, c))"

subsection \<open>Get and the package variables\<close>

text \<open>
  The package variables: \<open>config\<close> is a pointer into the heap (\<open>None\<close> is \<open>nil\<close>, an
  address is an index of the list of allocated structs), \<open>doOnce\<close> is the flag of the
  \<open>sync.Once\<close>. \<open>Once.Do\<close> sets the flag also when the function panics, and the struct is
  allocated and assigned to \<open>config\<close> before anything can panic.
\<close>

record package =
  heap :: "ExportConfig list"
  config :: "nat option"
  doOnce :: bool

definition start :: package where
  "start = \<lparr>heap = [], config = None, doOnce = False\<rparr>"

definition Get :: "textlib \<Rightarrow> environ \<Rightarrow> clowder \<Rightarrow> package \<Rightarrow> (panic + nat option) \<times> package" where
  "Get L env cl s =
     (if doOnce s then (Inr (config s), s)
      else (case initialize L env cl of
              (raised, c) \<Rightarrow>
                let a = length (heap s);
                    s' = s\<lparr>heap := heap s @ [c], config := Some a, doOnce := True\<rparr>
                in (case raised of
                      Some p \<Rightarrow> (Inl p, s')
                    | None \<Rightarrow> (Inr (config s'), s'))))"

text \<open>The struct a returned pointer refers to.\<close>

definition load :: "package \<Rightarrow> nat option \<Rightarrow> ExportConfig option" where
  "load s p = (case p of
                 None \<Rightarrow> None
               | Some a \<Rightarrow> if a < length (heap s) then Some (heap s ! a) else None)"

subsection \<open>Notions the statements use\<close>

text \<open>
  The value a key resolves to when only the environment and a built-in default are
  consulted: the converted variable when it is set and not empty, the default otherwise.
\<close>

definition envOr :: "environ \<Rightarrow> string \<Rightarrow> (string \<Rightarrow> 'a) \<Rightarrow> 'a \<Rightarrow> 'a" where
  "envOr env k conv d = (case getEnv env k of None \<Rightarrow> d | Some s \<Rightarrow> conv s)"

text \<open>
  The resolution the specification describes for a process without platform injection,
  field by field: the variable of the key, converted, when it is set and not empty, and
  the built-in default otherwise. The endpoint is derived from three keys; the default
  of the pre-shared keys is itself computed from a variable.
\<close>

definition envOverDefaults :: "textlib \<Rightarrow> environ \<Rightarrow> ExportConfig" where
  "envOverDefaults L env =
     \<lparr>ExportConfig.Hostname = envOr env ''HOSTNAME'' id [],
      ExportConfig.PublicPort = envOr env ''PUBLIC_PORT'' (ToIntString L) 8000,
      ExportConfig.MetricsPort = envOr env ''METRICS_PORT'' (ToIntString L) 9000,
      ExportConfig.PrivatePort = envOr env ''PRIVATE_PORT'' (ToIntString L) 10000,
      ExportConfig.Logging = None,
      ExportConfig.LogLevel = envOr env ''LOG_LEVEL'' id ''INFO'',
      ExportConfig.Debug = envOr env ''DEBUG'' ToBoolString False,
      ExportConfig.DBConfig =
        \<lparr>dbConfig.User = envOr env ''PGSQL_USER'' id ''postgres'',
         dbConfig.Password = envOr env ''PGSQL_PASSWORD'' id ''postgres'',
         dbConfig.Hostname = envOr env ''PGSQL_HOSTNAME'' id ''localhost'',
         dbConfig.Port = envOr env ''PGSQL_PORT'' id ''15433'',
         dbConfig.Name = envOr env ''PGSQL_DATABASE'' id ''postgres'',
         dbConfig.SSLCfg = \<lparr>dbSSLConfig.RdsCa = None, dbSSLConfig.SSLMode = ''disable''\<rparr>\<rparr>,
      ExportConfig.StorageConfig =
        \<lparr>storageConfig.Bucket = ''exports-bucket'',
         storageConfig.Endpoint =
           buildBaseHttpUrl (envOr env ''MINIO_SSL'' ToBoolString False)
             (envOr env ''MINIO_HOST'' id ''localhost'')
             (envOr env ''MINIO_PORT'' (ToIntString L) (ToIntString L ''9099'')),
         storageConfig.AccessKey = envOr env ''AWS_ACCESS_KEY'' id [],
         storageConfig.SecretKey = envOr env ''AWS_SECRET_ACCESS_KEY'' id [],
         storageConfig.UseSSL = envOr env ''MINIO_SSL'' ToBoolString False\<rparr>,
      ExportConfig.KafkaConfig =
        \<lparr>kafkaConfig.Brokers = envOr env ''KAFKA_BROKERS'' (Fields L) [[]],
         kafkaConfig.GroupID = envOr env ''KAFKA_GROUP_ID'' id ''export'',
         kafkaConfig.ExportsTopic =
           envOr env ''KAFKA_ANNOUNCE_TOPIC'' id ''platform.export.requests'',
         kafkaConfig.SSLConfig = zero_kafkaSSLConfig,
         kafkaConfig.EventSource =
           envOr env ''KAFKA_EVENT_SOURCE'' id ''urn:redhat:source:export-service'',
         kafkaConfig.EventSpecVersion = envOr env ''KAFKA_EVENT_SPECVERSION'' id ''1.0'',
         kafkaConfig.EventType =
           envOr env ''KAFKA_EVENT_TYPE'' id ''com.redhat.console.export-service.request'',
         kafkaConfig.EventDataSchema =
           envOr env ''KAFKA_EVENT_DATASCHEMA'' id
             ''https://github.com/RedHatInsights/event-schemas/blob/main/schemas/apps/export-service/v1/export-request.json''\<rparr>,
      ExportConfig.OpenAPIPrivatePath =
        envOr env ''OPEN_API_PRIVATE_PATH'' id ''./static/spec/private.json'',
      ExportConfig.OpenAPIPublicPath =
        envOr env ''OPEN_API_FILE_PATH'' id ''./static/spec/openapi.json'',
      ExportConfig.Psks =
        envOr env ''PSKS'' (Fields L) (Split (Getenv env ''EXPORTS_PSKS'') '',''),
      ExportConfig.ExportExpiryDays = envOr env ''EXPORT_EXPIRY_DAYS'' (ToIntString L) 7\<rparr>"

text \<open>
  The platform is enabled and a CA bundle that the initialisation materialises cannot be
  written: the database declares an RDS CA and \<open>cfg.RdsCa()\<close> returns an error, or the
  first broker declares an authentication type and \<open>cfg.KafkaCa(broker)\<close> returns an error.
\<close>

definition rdsCaFails :: "clowder \<Rightarrow> bool" where
  "rdsCaFails cl =
     (case clowder.LoadedConfig cl of
        None \<Rightarrow> False
      | Some cfg \<Rightarrow>
          (case AppConfig.Database cfg of
             None \<Rightarrow> False
           | Some db \<Rightarrow> DatabaseConfig.RdsCa db \<noteq> None \<and> isl (clowder.RdsCa cl cfg)))"

definition kafkaCaFails :: "clowder \<Rightarrow> bool" where
  "kafkaCaFails cl =
     (case clowder.LoadedConfig cl of
        None \<Rightarrow> False
      | Some cfg \<Rightarrow>
          (case AppConfig.Kafka cfg of
             None \<Rightarrow> False
           | Some kafka \<Rightarrow>
               (case KafkaConfig.Brokers kafka of
                  [] \<Rightarrow> False
                | broker # _ \<Rightarrow>
                    BrokerConfig.Authtype broker \<noteq> None \<and> isl (clowder.KafkaCa cl cfg broker))))"

definition caFails :: "clowder \<Rightarrow> bool" where
  "caFails cl = (clowder.IsClowderEnabled cl \<and> (rdsCaFails cl \<or> kafkaCaFails cl))"

text \<open>
  The first call of \<open>Get\<close> in a process returns a pointer to the struct \<open>c\<close> (and does
  not panic).
\<close>

definition resolves :: "textlib \<Rightarrow> environ \<Rightarrow> clowder \<Rightarrow> ExportConfig \<Rightarrow> bool" where
  "resolves L env cl c =
     (case Get L env cl start of
        (Inl p, s) \<Rightarrow> False
      | (Inr ptr, s) \<Rightarrow> load s ptr = Some c)"

text \<open>
  The variables the table of recognised keys lists (section 6 of the specification; the
  row \<open>KAFKA_EVENT_*\<close> stands for the four keys the source registers).
\<close>

definition recognizedKeys :: "string list" where
  "recognizedKeys =
     [''PUBLIC_PORT'', ''METRICS_PORT'', ''PRIVATE_PORT'', ''LOG_LEVEL'', ''DEBUG'',
      ''OPEN_API_FILE_PATH'', ''OPEN_API_PRIVATE_PATH'', ''EXPORTS_PSKS'',
      ''EXPORT_EXPIRY_DAYS'', ''PGSQL_USER'', ''PGSQL_PASSWORD'', ''PGSQL_HOSTNAME'',
      ''PGSQL_PORT'', ''PGSQL_DATABASE'', ''MINIO_HOST'', ''MINIO_PORT'', ''MINIO_SSL'',
      ''AWS_ACCESS_KEY'', ''AWS_SECRET_ACCESS_KEY'', ''KAFKA_BROKERS'', ''KAFKA_GROUP_ID'',
      ''KAFKA_ANNOUNCE_TOPIC'', ''KAFKA_EVENT_SOURCE'', ''KAFKA_EVENT_SPECVERSION'',
      ''KAFKA_EVENT_TYPE'', ''KAFKA_EVENT_DATASCHEMA'', ''EXPORT_SERVICE_BUCKET'']"

subsection \<open>Concrete inputs for the closed examples\<close>

text \<open>
  An instance of the two library parameters for the examples. \<open>decimalToInt\<close> agrees
  with \<open>cast.ToInt\<close> on decimal numerals that have no leading zero and fit 64 bits (Go
  reads a leading zero as octal, a prefix as another base, and gives zero on overflow);
  \<open>fieldsFrom\<close> agrees with \<open>strings.Fields\<close> on ASCII text (Go also splits at Unicode
  white space). The examples apply them to \<open>9099\<close> and \<open>k1\<close> only.
\<close>

fun decimalValue :: "nat \<Rightarrow> string \<Rightarrow> nat option" where
  "decimalValue acc [] = Some acc"
| "decimalValue acc (c # cs) =
     (if c \<in> set ''0123456789''
      then decimalValue (10 * acc + (of_char c - of_char CHR ''0'')) cs
      else None)"

definition decimalToInt :: "string \<Rightarrow> int" where
  "decimalToInt s =
     (case s of
        [] \<Rightarrow> 0
      | c # cs \<Rightarrow>
          if c = CHR ''-'' \<or> c = CHR ''+''
          then (case (if cs = [] then None else decimalValue 0 cs) of
                  None \<Rightarrow> 0
                | Some n \<Rightarrow> if c = CHR ''-'' then - int n else int n)
          else (case decimalValue 0 s of None \<Rightarrow> 0 | Some n \<Rightarrow> int n))"

definition asciiSpace :: "char \<Rightarrow> bool" where
  "asciiSpace c = (c \<in> set [CHR '' '', CHR 0x09, CHR 0x0A, CHR 0x0B, CHR 0x0C, CHR 0x0D])"

fun fieldsFrom :: "string \<Rightarrow> string \<Rightarrow> string list" where
  "fieldsFrom piece [] = (if piece = [] then [] else [piece])"
| "fieldsFrom piece (c # cs) =
     (if asciiSpace c
      then (if piece = [] then fieldsFrom [] cs else piece # fieldsFrom [] cs)
      else fieldsFrom (piece @ [c]) cs)"

definition decimalText :: textlib where
  "decimalText = \<lparr>ToIntString = decimalToInt, Fields = fieldsFrom []\<rparr>"

text \<open>A process without Clowder.\<close>

definition noClowder :: clowder where
  "noClowder =
     \<lparr>clowder.IsClowderEnabled = False, clowder.LoadedConfig = None,
      clowder.ObjectBuckets = Map.empty, clowder.KafkaServers = [],
      clowder.RdsCa = (\<lambda>cfg. Inl ''no database''),
      clowder.KafkaCa = (\<lambda>cfg broker. Inl ''no broker'')\<rparr>"

text \<open>
  A Clowder configuration with a database that declares an RDS CA, one broker with SASL
  authentication and no security protocol, CloudWatch logging and one bucket.
\<close>

definition exampleBucket :: ObjectStoreBucket where
  "exampleBucket =
     \<lparr>ObjectStoreBucket.AccessKey = Some ''bucket-access'',
      ObjectStoreBucket.Name = ''exports-7f3a'',
      ObjectStoreBucket.RequestedName = ''exports'',
      ObjectStoreBucket.SecretKey = Some ''bucket-secret''\<rparr>"

definition exampleBroker :: BrokerConfig where
  "exampleBroker =
     \<lparr>BrokerConfig.Authtype = Some ''sasl'', BrokerConfig.Cacert = Some ''kafka-ca-pem'',
      BrokerConfig.Hostname = ''kafka.local'',
      BrokerConfig.Sasl =
        Some \<lparr>KafkaSASLConfig.Password = Some ''kafka-secret'',
              KafkaSASLConfig.SaslMechanism = Some ''SCRAM-SHA-512'',
              KafkaSASLConfig.Username = Some ''kafka-user''\<rparr>,
      BrokerConfig.SecurityProtocol = None\<rparr>"

definition exampleAppConfig :: AppConfig where
  "exampleAppConfig =
     \<lparr>AppConfig.Database =
        Some \<lparr>DatabaseConfig.Hostname = ''db.local'', DatabaseConfig.Name = ''exports'',
              DatabaseConfig.Password = ''db-secret'', DatabaseConfig.Port = 5432,
              DatabaseConfig.RdsCa = Some ''rds-ca-pem'',
              DatabaseConfig.SslMode = ''verify-full'', DatabaseConfig.Username = ''bob''\<rparr>,
      AppConfig.Kafka = Some \<lparr>KafkaConfig.Brokers = [exampleBroker]\<rparr>,
      AppConfig.Logging =
        \<lparr>LoggingConfig.Cloudwatch =
           Some \<lparr>CloudWatchConfig.AccessKeyId = ''cw-key'',
                 CloudWatchConfig.LogGroup = ''export-logs'',
                 CloudWatchConfig.Region = ''us-east-1'',
                 CloudWatchConfig.SecretAccessKey = ''cw-secret''\<rparr>\<rparr>,
      AppConfig.MetricsPort = 9001,
      AppConfig.ObjectStore =
        Some \<lparr>ObjectStoreConfig.Buckets = [exampleBucket],
              ObjectStoreConfig.Hostname = ''minio'', ObjectStoreConfig.Port = 443,
              ObjectStoreConfig.Tls = True\<rparr>,
      AppConfig.PrivatePort = Some 10001,
      AppConfig.PublicPort = Some 8001\<rparr>"

definition exampleClowder :: clowder where
  "exampleClowder =
     \<lparr>clowder.IsClowderEnabled = True, clowder.LoadedConfig = Some exampleAppConfig,
      clowder.ObjectBuckets = [''exports'' \<mapsto> exampleBucket],
      clowder.KafkaServers = [''kafka.local:9092''],
      clowder.RdsCa = (\<lambda>cfg. Inr ''/tmp/rdsca''),
      clowder.KafkaCa = (\<lambda>cfg broker. Inr ''/tmp/kafkaca'')\<rparr>"

text \<open>The same platform on a machine where the RDS CA file cannot be written.\<close>

definition failingClowder :: clowder where
  "failingClowder = exampleClowder\<lparr>clowder.RdsCa := (\<lambda>cfg. Inl ''disk full'')\<rparr>"





text \<open>An environment that contradicts the platform's database user and sets a group id.\<close>

definition exampleEnv :: environ where
  "exampleEnv =
     [''PGSQL_USER'' \<mapsto> ''alice'', ''KAFKA_GROUP_ID'' \<mapsto> ''reports'',
      ''EXPORT_SERVICE_BUCKET'' \<mapsto> ''exports'']"

text \<open>What the defaults alone give: no variable set, no platform.\<close>

definition defaultConfig :: ExportConfig where
  "defaultConfig =
     \<lparr>ExportConfig.Hostname = [],
      ExportConfig.PublicPort = 8000,
      ExportConfig.MetricsPort = 9000,
      ExportConfig.PrivatePort = 10000,
      ExportConfig.Logging = None,
      ExportConfig.LogLevel = ''INFO'',
      ExportConfig.Debug = False,
      ExportConfig.DBConfig =
        \<lparr>dbConfig.User = ''postgres'', dbConfig.Password = ''postgres'',
         dbConfig.Hostname = ''localhost'', dbConfig.Port = ''15433'',
         dbConfig.Name = ''postgres'',
         dbConfig.SSLCfg = \<lparr>dbSSLConfig.RdsCa = None, dbSSLConfig.SSLMode = ''disable''\<rparr>\<rparr>,
      ExportConfig.StorageConfig =
        \<lparr>storageConfig.Bucket = ''exports-bucket'',
         storageConfig.Endpoint = ''http://localhost:9099'',
         storageConfig.AccessKey = [], storageConfig.SecretKey = [],
         storageConfig.UseSSL = False\<rparr>,
      ExportConfig.KafkaConfig =
        \<lparr>kafkaConfig.Brokers = [[]],
         kafkaConfig.GroupID = ''export'',
         kafkaConfig.ExportsTopic = ''platform.export.requests'',
         kafkaConfig.SSLConfig = zero_kafkaSSLConfig,
         kafkaConfig.EventSource = ''urn:redhat:source:export-service'',
         kafkaConfig.EventSpecVersion = ''1.0'',
         kafkaConfig.EventType = ''com.redhat.console.export-service.request'',
         kafkaConfig.EventDataSchema =
           ''https://github.com/RedHatInsights/event-schemas/blob/main/schemas/apps/export-service/v1/export-request.json''\<rparr>,
      ExportConfig.OpenAPIPrivatePath = ''./static/spec/private.json'',
      ExportConfig.OpenAPIPublicPath = ''./static/spec/openapi.json'',
      ExportConfig.Psks = [[]],
      ExportConfig.ExportExpiryDays = 7\<rparr>"

text \<open>What the example environment gives on the example platform.\<close>

definition platformConfig :: ExportConfig where
  "platformConfig =
     defaultConfig
       \<lparr>ExportConfig.PublicPort := 8001,
        ExportConfig.MetricsPort := 9001,
        ExportConfig.PrivatePort := 10001,
        ExportConfig.Logging :=
          Some \<lparr>loggingConfig.AccessKeyID = ''cw-key'',
                loggingConfig.SecretAccessKey = ''cw-secret'',
                loggingConfig.LogGroup = ''export-logs'',
                loggingConfig.Region = ''us-east-1''\<rparr>,
        ExportConfig.DBConfig :=
          \<lparr>dbConfig.User = ''bob'', dbConfig.Password = ''db-secret'',
           dbConfig.Hostname = ''db.local'', dbConfig.Port = ''5432'',
           dbConfig.Name = ''exports'',
           dbConfig.SSLCfg =
             \<lparr>dbSSLConfig.RdsCa = Some ''/tmp/rdsca'',
              dbSSLConfig.SSLMode = ''verify-full''\<rparr>\<rparr>,
        ExportConfig.StorageConfig :=
          \<lparr>storageConfig.Bucket = ''exports'',
           storageConfig.Endpoint = ''https://minio:443'',
           storageConfig.AccessKey = ''bucket-access'',
           storageConfig.SecretKey = ''bucket-secret'',
           storageConfig.UseSSL = True\<rparr>,
        ExportConfig.KafkaConfig :=
          (ExportConfig.KafkaConfig defaultConfig)
            \<lparr>kafkaConfig.Brokers := [''kafka.local:9092''],
             kafkaConfig.GroupID := ''reports'',
             kafkaConfig.SSLConfig :=
               \<lparr>kafkaSSLConfig.CA = ''/tmp/kafkaca'',
                kafkaSSLConfig.Username = ''kafka-user'',
                kafkaSSLConfig.Password = ''kafka-secret'',
                kafkaSSLConfig.SASLMechanism = ''SCRAM-SHA-512'',
                kafkaSSLConfig.Protocol = ''sasl_ssl''\<rparr>\<rparr>\<rparr>"

text \<open>
  What the package variable points to after the resolution panicked on the platform that
  cannot write the RDS CA: the environment's values with the platform's ports.
\<close>

definition partialConfig :: ExportConfig where
  "partialConfig =
     defaultConfig
       \<lparr>ExportConfig.PublicPort := 8001,
        ExportConfig.MetricsPort := 9001,
        ExportConfig.PrivatePort := 10001,
        ExportConfig.DBConfig :=
          (ExportConfig.DBConfig defaultConfig)\<lparr>dbConfig.User := ''alice''\<rparr>,
        ExportConfig.KafkaConfig :=
          (ExportConfig.KafkaConfig defaultConfig)\<lparr>kafkaConfig.GroupID := ''reports''\<rparr>\<rparr>"

section \<open>Properties\<close>

subsection \<open>Key lookups\<close>

lemma upperChar_keys:
  "upperChar CHR ''A'' = CHR ''A'' \<and> upperChar CHR ''B'' = CHR ''B'' \<and> upperChar CHR ''C'' = CHR ''C'' \<and>
   upperChar CHR ''D'' = CHR ''D'' \<and> upperChar CHR ''E'' = CHR ''E'' \<and> upperChar CHR ''F'' = CHR ''F'' \<and>
   upperChar CHR ''G'' = CHR ''G'' \<and> upperChar CHR ''H'' = CHR ''H'' \<and> upperChar CHR ''I'' = CHR ''I'' \<and>
   upperChar CHR ''J'' = CHR ''J'' \<and> upperChar CHR ''K'' = CHR ''K'' \<and> upperChar CHR ''L'' = CHR ''L'' \<and>
   upperChar CHR ''M'' = CHR ''M'' \<and> upperChar CHR ''N'' = CHR ''N'' \<and> upperChar CHR ''O'' = CHR ''O'' \<and>
   upperChar CHR ''P'' = CHR ''P'' \<and> upperChar CHR ''Q'' = CHR ''Q'' \<and> upperChar CHR ''R'' = CHR ''R'' \<and>
   upperChar CHR ''S'' = CHR ''S'' \<and> upperChar CHR ''T'' = CHR ''T'' \<and> upperChar CHR ''U'' = CHR ''U'' \<and>
   upperChar CHR ''V'' = CHR ''V'' \<and> upperChar CHR ''W'' = CHR ''W'' \<and> upperChar CHR ''X'' = CHR ''X'' \<and>
   upperChar CHR ''Y'' = CHR ''Y'' \<and> upperChar CHR ''Z'' = CHR ''Z'' \<and> upperChar CHR ''_'' = CHR ''_'' \<and>
   upperChar CHR ''o'' = CHR ''O'' \<and> upperChar CHR ''s'' = CHR ''S'' \<and> upperChar CHR ''t'' = CHR ''T'' \<and>
   upperChar CHR ''n'' = CHR ''N'' \<and> upperChar CHR ''a'' = CHR ''A'' \<and> upperChar CHR ''m'' = CHR ''M'' \<and>
   upperChar CHR ''e'' = CHR ''E''"
  by code_simp

lemma lowerChar_keys:
  "lowerChar CHR ''A'' = CHR ''a'' \<and> lowerChar CHR ''B'' = CHR ''b'' \<and> lowerChar CHR ''C'' = CHR ''c'' \<and>
   lowerChar CHR ''D'' = CHR ''d'' \<and> lowerChar CHR ''E'' = CHR ''e'' \<and> lowerChar CHR ''F'' = CHR ''f'' \<and>
   lowerChar CHR ''G'' = CHR ''g'' \<and> lowerChar CHR ''H'' = CHR ''h'' \<and> lowerChar CHR ''I'' = CHR ''i'' \<and>
   lowerChar CHR ''J'' = CHR ''j'' \<and> lowerChar CHR ''K'' = CHR ''k'' \<and> lowerChar CHR ''L'' = CHR ''l'' \<and>
   lowerChar CHR ''M'' = CHR ''m'' \<and> lowerChar CHR ''N'' = CHR ''n'' \<and> lowerChar CHR ''O'' = CHR ''o'' \<and>
   lowerChar CHR ''P'' = CHR ''p'' \<and> lowerChar CHR ''Q'' = CHR ''q'' \<and> lowerChar CHR ''R'' = CHR ''r'' \<and>
   lowerChar CHR ''S'' = CHR ''s'' \<and> lowerChar CHR ''T'' = CHR ''t'' \<and> lowerChar CHR ''U'' = CHR ''u'' \<and>
   lowerChar CHR ''V'' = CHR ''v'' \<and> lowerChar CHR ''W'' = CHR ''w'' \<and> lowerChar CHR ''X'' = CHR ''x'' \<and>
   lowerChar CHR ''Y'' = CHR ''y'' \<and> lowerChar CHR ''Z'' = CHR ''z'' \<and> lowerChar CHR ''_'' = CHR ''_'' \<and>
   lowerChar CHR ''o'' = CHR ''o'' \<and> lowerChar CHR ''s'' = CHR ''s'' \<and> lowerChar CHR ''t'' = CHR ''t'' \<and>
   lowerChar CHR ''n'' = CHR ''n'' \<and> lowerChar CHR ''a'' = CHR ''a'' \<and> lowerChar CHR ''m'' = CHR ''m'' \<and>
   lowerChar CHR ''e'' = CHR ''e''"
  by code_simp

lemma defaults_options:
  "defaults (options env) =
     [''public_port'' \<mapsto> IInt 8000,
      ''metrics_port'' \<mapsto> IInt 9000,
      ''private_port'' \<mapsto> IInt 10000,
      ''log_level'' \<mapsto> IString ''INFO'',
      ''debug'' \<mapsto> IBool False,
      ''open_api_file_path'' \<mapsto> IString ''./static/spec/openapi.json'',
      ''open_api_private_path'' \<mapsto> IString ''./static/spec/private.json'',
      ''psks'' \<mapsto> IStrings (Split (Getenv env ''EXPORTS_PSKS'') '',''),
      ''export_expiry_days'' \<mapsto> IInt 7,
      ''pgsql_user'' \<mapsto> IString ''postgres'',
      ''pgsql_password'' \<mapsto> IString ''postgres'',
      ''pgsql_hostname'' \<mapsto> IString ''localhost'',
      ''pgsql_port'' \<mapsto> IString ''15433'',
      ''pgsql_database'' \<mapsto> IString ''postgres'',
      ''minio_host'' \<mapsto> IString ''localhost'',
      ''minio_port'' \<mapsto> IString ''9099'',
      ''minio_ssl'' \<mapsto> IBool False,
      ''kafka_announce_topic'' \<mapsto> IString ExportTopic,
      ''kafka_brokers'' \<mapsto> IStrings (Split (Getenv env ''KAFKA_BROKERS'') '',''),
      ''kafka_group_id'' \<mapsto> IString ''export'',
      ''kafka_event_source'' \<mapsto> IString ''urn:redhat:source:export-service'',
      ''kafka_event_specversion'' \<mapsto> IString ''1.0'',
      ''kafka_event_type'' \<mapsto> IString ''com.redhat.console.export-service.request'',
      ''kafka_event_dataschema'' \<mapsto> IString
          ''https://github.com/RedHatInsights/event-schemas/blob/main/schemas/apps/export-service/v1/export-request.json'']"
  by (simp add: options_def AutomaticEnv_def SetDefault_def viperNew_def ToLower_def lowerChar_keys)

lemma auto_options: "automaticEnvApplied (options env)"
  by (simp add: options_def AutomaticEnv_def)

lemma auto_kubenv: "automaticEnvApplied kubenv \<and> defaults kubenv = Map.empty"
  by (simp add: kubenv_def AutomaticEnv_def viperNew_def)

lemma GetString_envOr:
  "automaticEnvApplied vp \<Longrightarrow>
   GetString env vp key = envOr env (ToUpper key) id (ToString (defaults vp (ToLower key)))"
  by (simp add: GetString_def viperGet_def envOr_def split: option.splits)

lemma GetInt_envOr:
  "automaticEnvApplied vp \<Longrightarrow>
   GetInt L env vp key = envOr env (ToUpper key) (ToIntString L) (ToInt L (defaults vp (ToLower key)))"
  by (simp add: GetInt_def viperGet_def envOr_def split: option.splits)

lemma GetBool_envOr:
  "automaticEnvApplied vp \<Longrightarrow>
   GetBool env vp key = envOr env (ToUpper key) ToBoolString (ToBool (defaults vp (ToLower key)))"
  by (simp add: GetBool_def viperGet_def envOr_def split: option.splits)

lemma GetStringSlice_envOr:
  "automaticEnvApplied vp \<Longrightarrow>
   GetStringSlice L env vp key =
     envOr env (ToUpper key) (Fields L) (ToStringSlice L (defaults vp (ToLower key)))"
  by (simp add: GetStringSlice_def viperGet_def envOr_def split: option.splits)

lemmas lookups = GetString_envOr GetInt_envOr GetBool_envOr GetStringSlice_envOr auto_options
  auto_kubenv ToUpper_def ToLower_def upperChar_keys lowerChar_keys defaults_options

lemma get_top:
  "GetString env kubenv ''Hostname'' = envOr env ''HOSTNAME'' id []"
  "GetInt L env (options env) ''PUBLIC_PORT'' = envOr env ''PUBLIC_PORT'' (ToIntString L) 8000"
  "GetInt L env (options env) ''METRICS_PORT'' = envOr env ''METRICS_PORT'' (ToIntString L) 9000"
  "GetInt L env (options env) ''PRIVATE_PORT'' = envOr env ''PRIVATE_PORT'' (ToIntString L) 10000"
  "GetBool env (options env) ''DEBUG'' = envOr env ''DEBUG'' ToBoolString False"
  "GetString env (options env) ''LOG_LEVEL'' = envOr env ''LOG_LEVEL'' id ''INFO''"
  "GetString env (options env) ''OPEN_API_FILE_PATH'' =
     envOr env ''OPEN_API_FILE_PATH'' id ''./static/spec/openapi.json''"
  "GetString env (options env) ''OPEN_API_PRIVATE_PATH'' =
     envOr env ''OPEN_API_PRIVATE_PATH'' id ''./static/spec/private.json''"
  "GetStringSlice L env (options env) ''PSKS'' =
     envOr env ''PSKS'' (Fields L) (Split (Getenv env ''EXPORTS_PSKS'') '','')"
  "GetInt L env (options env) ''EXPORT_EXPIRY_DAYS'' =
     envOr env ''EXPORT_EXPIRY_DAYS'' (ToIntString L) 7"
  by (simp_all add: lookups)

lemma get_db:
  "GetString env (options env) ''PGSQL_USER'' = envOr env ''PGSQL_USER'' id ''postgres''"
  "GetString env (options env) ''PGSQL_PASSWORD'' = envOr env ''PGSQL_PASSWORD'' id ''postgres''"
  "GetString env (options env) ''PGSQL_HOSTNAME'' = envOr env ''PGSQL_HOSTNAME'' id ''localhost''"
  "GetString env (options env) ''PGSQL_PORT'' = envOr env ''PGSQL_PORT'' id ''15433''"
  "GetString env (options env) ''PGSQL_DATABASE'' = envOr env ''PGSQL_DATABASE'' id ''postgres''"
  by (simp_all add: lookups)

lemma get_storage:
  "GetBool env (options env) ''MINIO_SSL'' = envOr env ''MINIO_SSL'' ToBoolString False"
  "GetString env (options env) ''MINIO_HOST'' = envOr env ''MINIO_HOST'' id ''localhost''"
  "GetInt L env (options env) ''MINIO_PORT'' =
     envOr env ''MINIO_PORT'' (ToIntString L) (ToIntString L ''9099'')"
  "GetString env (options env) ''AWS_ACCESS_KEY'' = envOr env ''AWS_ACCESS_KEY'' id []"
  "GetString env (options env) ''AWS_SECRET_ACCESS_KEY'' =
     envOr env ''AWS_SECRET_ACCESS_KEY'' id []"
  "GetString env (options env) ''EXPORT_SERVICE_BUCKET'' =
     envOr env ''EXPORT_SERVICE_BUCKET'' id []"
  by (simp_all add: lookups)

lemma brokers_default:
  "envOr env ''KAFKA_BROKERS'' conv (Split (Getenv env ''KAFKA_BROKERS'') '','') =
     envOr env ''KAFKA_BROKERS'' conv [[]]"
  by (simp add: envOr_def getEnv_def Getenv_def Split_def split: option.splits)

lemma get_kafka:
  "GetStringSlice L env (options env) ''KAFKA_BROKERS'' =
     envOr env ''KAFKA_BROKERS'' (Fields L) [[]]"
  "GetString env (options env) ''KAFKA_GROUP_ID'' = envOr env ''KAFKA_GROUP_ID'' id ''export''"
  "GetString env (options env) ''KAFKA_ANNOUNCE_TOPIC'' =
     envOr env ''KAFKA_ANNOUNCE_TOPIC'' id ''platform.export.requests''"
  "GetString env (options env) ''KAFKA_EVENT_SOURCE'' =
     envOr env ''KAFKA_EVENT_SOURCE'' id ''urn:redhat:source:export-service''"
  "GetString env (options env) ''KAFKA_EVENT_SPECVERSION'' =
     envOr env ''KAFKA_EVENT_SPECVERSION'' id ''1.0''"
  "GetString env (options env) ''KAFKA_EVENT_TYPE'' =
     envOr env ''KAFKA_EVENT_TYPE'' id ''com.redhat.console.export-service.request''"
  "GetString env (options env) ''KAFKA_EVENT_DATASCHEMA'' =
     envOr env ''KAFKA_EVENT_DATASCHEMA'' id
       ''https://github.com/RedHatInsights/event-schemas/blob/main/schemas/apps/export-service/v1/export-request.json''"
  by (simp_all add: lookups brokers_default ExportTopic_def)

text \<open>Lines 128 to 168 in closed form: every field with the variable and the default it comes from.\<close>

lemma envConfig_closed: "envConfig L env = envOverDefaults L env"
  unfolding envConfig_def envOverDefaults_def Let_def get_top get_db get_storage get_kafka
  by (simp add: zero_ExportConfig_def zero_dbSSLConfig_def zero_kafkaConfig_def)

subsection \<open>The first call\<close>

lemma Get_start:
  "Get L env cl start =
     (case initialize L env cl of
        (None, c) \<Rightarrow> (Inr (Some 0), \<lparr>heap = [c], config = Some 0, doOnce = True\<rparr>)
      | (Some p, c) \<Rightarrow> (Inl p, \<lparr>heap = [c], config = Some 0, doOnce = True\<rparr>))"
  by (simp add: Get_def start_def Let_def split: prod.splits option.splits)

lemma resolves_iff: "resolves L env cl c \<longleftrightarrow> initialize L env cl = (None, c)"
  by (auto simp add: resolves_def Get_start load_def split: prod.splits option.splits)

lemma initialize_disabled:
  "\<not> clowder.IsClowderEnabled cl \<Longrightarrow> initialize L env cl = (None, envConfig L env)"
  by (simp add: initialize_def Let_def)

subsection \<open>The Clowder stage\<close>

lemma assign_success:
  "assign rhs store c = (None, c') \<longleftrightarrow> (\<exists>v. rhs = Inr v \<and> c' = store v c)"
  by (auto simp add: assign_def split: sum.splits)

lemma steps_success:
  "steps (f # fs) c = (None, c') \<longleftrightarrow> (\<exists>c1. f c = (None, c1) \<and> steps fs c1 = (None, c'))"
  by (auto split: prod.splits option.splits)

lemma steps_nil_success: "steps [] c = (None, c') \<longleftrightarrow> c' = c"
  by auto

lemma deref_Inr: "deref p = Inr v \<longleftrightarrow> p = Some v"
  by (simp add: deref_def split: option.splits)

lemma first_Inr: "first xs = Inr x \<longleftrightarrow> (\<exists>rest. xs = x # rest)"
  by (simp add: first_def split: list.splits)

lemma setPorts_success:
  "setPorts cfg c = (None, c') \<longleftrightarrow>
     (\<exists>pub priv. AppConfig.PublicPort cfg = Some pub \<and> AppConfig.PrivatePort cfg = Some priv \<and>
        c' = c\<lparr>ExportConfig.PublicPort := pub, ExportConfig.MetricsPort := AppConfig.MetricsPort cfg,
               ExportConfig.PrivatePort := priv\<rparr>)"
  by (auto simp add: setPorts_def steps_success steps_nil_success assign_success deref_Inr
           simp del: steps.simps)

lemma platformDB_Inr:
  "platformDB cl cfg = Inr d \<longleftrightarrow>
     (\<exists>db ca. AppConfig.Database cfg = Some db \<and>
        (case DatabaseConfig.RdsCa db of
           None \<Rightarrow> ca = None
         | Some bundle \<Rightarrow> \<exists>path. clowder.RdsCa cl cfg = Inr path \<and> ca = Some path) \<and>
        d = \<lparr>dbConfig.User = DatabaseConfig.Username db,
             dbConfig.Password = DatabaseConfig.Password db,
             dbConfig.Hostname = DatabaseConfig.Hostname db,
             dbConfig.Port = Itoa (DatabaseConfig.Port db),
             dbConfig.Name = DatabaseConfig.Name db,
             dbConfig.SSLCfg =
               \<lparr>dbSSLConfig.RdsCa = ca, dbSSLConfig.SSLMode = DatabaseConfig.SslMode db\<rparr>\<rparr>)"
  by (auto simp add: platformDB_def getRdsCaPath_def deref_def split: option.splits sum.splits)

lemma brokerSSLConfig_Inr:
  "brokerSSLConfig cl cfg broker = Inr ssl \<longleftrightarrow>
     (\<exists>caPath sasl username password mechanism.
        clowder.KafkaCa cl cfg broker = Inr caPath \<and>
        BrokerConfig.Sasl broker = Some sasl \<and>
        KafkaSASLConfig.Username sasl = Some username \<and>
        KafkaSASLConfig.Password sasl = Some password \<and>
        KafkaSASLConfig.SaslMechanism sasl = Some mechanism \<and>
        ssl = \<lparr>kafkaSSLConfig.CA = caPath,
               kafkaSSLConfig.Username = username,
               kafkaSSLConfig.Password = password,
               kafkaSSLConfig.SASLMechanism = mechanism,
               kafkaSSLConfig.Protocol = securityProtocol broker\<rparr>)"
  by (auto simp add: brokerSSLConfig_def deref_def split: option.splits sum.splits)

lemma platformKafkaSSL_Inr:
  "platformKafkaSSL cl cfg = Inr r \<longleftrightarrow>
     (\<exists>kafka broker rest. AppConfig.Kafka cfg = Some kafka \<and>
        KafkaConfig.Brokers kafka = broker # rest \<and>
        (case BrokerConfig.Authtype broker of
           None \<Rightarrow> r = None
         | Some authtype \<Rightarrow> \<exists>ssl. brokerSSLConfig cl cfg broker = Inr ssl \<and> r = Some ssl))"
  by (auto simp add: platformKafkaSSL_def deref_def first_def
           split: option.splits sum.splits list.splits)

lemma platformLogging_Inr:
  "platformLogging cfg = Inr l \<longleftrightarrow>
     (\<exists>cw. LoggingConfig.Cloudwatch (AppConfig.Logging cfg) = Some cw \<and>
        l = \<lparr>loggingConfig.AccessKeyID = CloudWatchConfig.AccessKeyId cw,
             loggingConfig.SecretAccessKey = CloudWatchConfig.SecretAccessKey cw,
             loggingConfig.LogGroup = CloudWatchConfig.LogGroup cw,
             loggingConfig.Region = CloudWatchConfig.Region cw\<rparr>)"
  by (auto simp add: platformLogging_def deref_def split: option.splits)

lemma platformStorage_Inr:
  "platformStorage info cfg = Inr st \<longleftrightarrow>
     (\<exists>store bucket rest accessKey secretKey.
        AppConfig.ObjectStore cfg = Some store \<and>
        ObjectStoreConfig.Buckets store = bucket # rest \<and>
        ObjectStoreBucket.AccessKey bucket = Some accessKey \<and>
        ObjectStoreBucket.SecretKey bucket = Some secretKey \<and>
        st = \<lparr>storageConfig.Bucket = ObjectStoreBucket.RequestedName info,
              storageConfig.Endpoint =
                buildBaseHttpUrl (ObjectStoreConfig.Tls store)
                  (ObjectStoreConfig.Hostname store) (ObjectStoreConfig.Port store),
              storageConfig.AccessKey = accessKey,
              storageConfig.SecretKey = secretKey,
              storageConfig.UseSSL = ObjectStoreConfig.Tls store\<rparr>)"
  by (auto simp add: platformStorage_def deref_def first_def split: option.splits list.splits)

text \<open>A run of the Clowder stage that does not panic: what each step read and stored.\<close>

lemma clowderConfig_success:
  assumes run: "clowderConfig env cl c0 = (None, c)"
  shows "\<exists>cfg pub priv db ssl lg st.
        clowder.LoadedConfig cl = Some cfg \<and>
        AppConfig.PublicPort cfg = Some pub \<and> AppConfig.PrivatePort cfg = Some priv \<and>
        platformDB cl cfg = Inr db \<and> platformKafkaSSL cl cfg = Inr ssl \<and>
        platformLogging cfg = Inr lg \<and> platformStorage (exportBucketInfo env cl) cfg = Inr st \<and>
        c = c0\<lparr>ExportConfig.PublicPort := pub,
               ExportConfig.MetricsPort := AppConfig.MetricsPort cfg,
               ExportConfig.PrivatePort := priv,
               ExportConfig.DBConfig := db,
               ExportConfig.KafkaConfig :=
                 (ExportConfig.KafkaConfig c0)
                   \<lparr>kafkaConfig.Brokers := clowder.KafkaServers cl,
                    kafkaConfig.SSLConfig :=
                      (case ssl of
                         None \<Rightarrow> kafkaConfig.SSLConfig (ExportConfig.KafkaConfig c0)
                       | Some policy \<Rightarrow> policy)\<rparr>,
               ExportConfig.Logging := Some lg,
               ExportConfig.StorageConfig := st\<rparr>"
proof -
  obtain cfg where cfg: "clowder.LoadedConfig cl = Some cfg"
    using run by (cases "clowder.LoadedConfig cl") (simp_all add: clowderConfig_def deref_def)
  with run have "steps [setPorts cfg, setDBConfig cl cfg, setBrokers cl, setKafkaSSL cl cfg,
                   setLogging cfg, setStorage (exportBucketInfo env cl) cfg] c0 = (None, c)"
    by (simp add: clowderConfig_def deref_def del: steps.simps)
  then obtain c1 c2 c3 c4 c5 where
      s1: "setPorts cfg c0 = (None, c1)" and s2: "setDBConfig cl cfg c1 = (None, c2)" and
      s3: "setBrokers cl c2 = (None, c3)" and s4: "setKafkaSSL cl cfg c3 = (None, c4)" and
      s5: "setLogging cfg c4 = (None, c5)" and
      s6: "setStorage (exportBucketInfo env cl) cfg c5 = (None, c)"
    by (auto simp add: steps_success steps_nil_success simp del: steps.simps)
  from s1 obtain pub priv where
      ports: "AppConfig.PublicPort cfg = Some pub" "AppConfig.PrivatePort cfg = Some priv" and
      c1: "c1 = c0\<lparr>ExportConfig.PublicPort := pub,
                     ExportConfig.MetricsPort := AppConfig.MetricsPort cfg,
                     ExportConfig.PrivatePort := priv\<rparr>"
    by (auto simp add: setPorts_success)
  from s2 obtain db where db: "platformDB cl cfg = Inr db" and
      c2: "c2 = c1\<lparr>ExportConfig.DBConfig := db\<rparr>"
    by (auto simp add: setDBConfig_def assign_success)
  from s3 have c3: "c3 = c2\<lparr>ExportConfig.KafkaConfig :=
                      (ExportConfig.KafkaConfig c2)\<lparr>kafkaConfig.Brokers := clowder.KafkaServers cl\<rparr>\<rparr>"
    by (auto simp add: setBrokers_def assign_success)
  from s4 obtain ssl where ssl: "platformKafkaSSL cl cfg = Inr ssl" and
      c4: "c4 = (case ssl of
                   None \<Rightarrow> c3
                 | Some policy \<Rightarrow>
                     c3\<lparr>ExportConfig.KafkaConfig :=
                          (ExportConfig.KafkaConfig c3)\<lparr>kafkaConfig.SSLConfig := policy\<rparr>\<rparr>)"
    by (auto simp add: setKafkaSSL_def assign_success)
  from s5 obtain lg where lg: "platformLogging cfg = Inr lg" and
      c5: "c5 = c4\<lparr>ExportConfig.Logging := Some lg\<rparr>"
    by (auto simp add: setLogging_def assign_success)
  from s6 obtain st where st: "platformStorage (exportBucketInfo env cl) cfg = Inr st" and
      c: "c = c5\<lparr>ExportConfig.StorageConfig := st\<rparr>"
    by (auto simp add: setStorage_def assign_success)
  have "c = c0\<lparr>ExportConfig.PublicPort := pub,
               ExportConfig.MetricsPort := AppConfig.MetricsPort cfg,
               ExportConfig.PrivatePort := priv,
               ExportConfig.DBConfig := db,
               ExportConfig.KafkaConfig :=
                 (ExportConfig.KafkaConfig c0)
                   \<lparr>kafkaConfig.Brokers := clowder.KafkaServers cl,
                    kafkaConfig.SSLConfig :=
                      (case ssl of
                         None \<Rightarrow> kafkaConfig.SSLConfig (ExportConfig.KafkaConfig c0)
                       | Some policy \<Rightarrow> policy)\<rparr>,
               ExportConfig.Logging := Some lg,
               ExportConfig.StorageConfig := st\<rparr>"
    by (cases ssl) (simp_all add: c c5 c4 c3 c2 c1)
  with cfg ports db ssl lg st show ?thesis by blast
qed

subsection \<open>The example processes\<close>

lemma example_lib:
  "ToIntString decimalText ''9099'' = 9099"
  "Fields decimalText ''k1'' = [''k1'']"
  by (simp_all add: decimalText_def decimalToInt_def asciiSpace_def)

lemma natDigits_digit: "n < 10 \<Longrightarrow> natDigits n = [digitChar n]"
  by (simp add: natDigits.simps)

lemma natDigits_more:
  "\<not> n < 10 \<Longrightarrow> natDigits n = natDigits (n div 10) @ [digitChar (n mod 10)]"
  by (simp add: natDigits.simps)

lemmas decimal = Itoa_def natDigits_digit natDigits_more digitChar_def

lemma url_examples:
  "buildBaseHttpUrl False ''localhost'' 9099 = ''http://localhost:9099''"
  "buildBaseHttpUrl True ''minio'' 443 = ''https://minio:443''"
  by (simp_all add: buildBaseHttpUrl_def decimal)

lemma Itoa_5432: "Itoa 5432 = ''5432''"
  by (simp add: decimal)

lemma getEnv_empty: "getEnv Map.empty k = None"
  by (simp add: getEnv_def)

lemma envOr_empty: "envOr Map.empty k conv d = d"
  by (simp add: envOr_def getEnv_def)

lemma default_run: "envOverDefaults decimalText Map.empty = defaultConfig"
  by (simp add: envOverDefaults_def envOr_empty defaultConfig_def example_lib url_examples
        Getenv_def Split_def)

lemma example_env_run:
  "envOverDefaults decimalText exampleEnv =
     defaultConfig
       \<lparr>ExportConfig.DBConfig :=
          (ExportConfig.DBConfig defaultConfig)\<lparr>dbConfig.User := ''alice''\<rparr>,
        ExportConfig.KafkaConfig :=
          (ExportConfig.KafkaConfig defaultConfig)\<lparr>kafkaConfig.GroupID := ''reports''\<rparr>\<rparr>"
  by (simp add: envOverDefaults_def envOr_def getEnv_def exampleEnv_def defaultConfig_def
        example_lib url_examples Getenv_def Split_def)

lemma example_bucket_info:
  "exportBucketInfo exampleEnv exampleClowder = exampleBucket"
  "exportBucketInfo Map.empty exampleClowder = zero_ObjectStoreBucket"
  by (simp_all add: exportBucketInfo_def get_storage envOr_def getEnv_def exampleEnv_def
        exampleClowder_def)

lemma example_platform_parts:
  "platformDB exampleClowder exampleAppConfig =
     Inr (ExportConfig.DBConfig platformConfig)"
  "platformKafkaSSL exampleClowder exampleAppConfig =
     Inr (Some (kafkaConfig.SSLConfig (ExportConfig.KafkaConfig platformConfig)))"
  "platformLogging exampleAppConfig = Inr (the (ExportConfig.Logging platformConfig))"
  "platformStorage exampleBucket exampleAppConfig =
     Inr (ExportConfig.StorageConfig platformConfig)"
  by (simp_all add: platformDB_def getRdsCaPath_def platformKafkaSSL_def brokerSSLConfig_def
        securityProtocol_def platformLogging_def platformStorage_def deref_def first_def
        exampleClowder_def exampleAppConfig_def exampleBroker_def exampleBucket_def
        platformConfig_def Itoa_5432 url_examples)

lemma example_clowder:
  "clowder.IsClowderEnabled exampleClowder"
  "clowder.LoadedConfig exampleClowder = Some exampleAppConfig"
  "clowder.KafkaServers exampleClowder = [''kafka.local:9092'']"
  by (simp_all add: exampleClowder_def)

lemma example_ports:
  "setPorts exampleAppConfig c =
     (None, c\<lparr>ExportConfig.PublicPort := 8001, ExportConfig.MetricsPort := 9001,
               ExportConfig.PrivatePort := 10001\<rparr>)"
  by (simp add: setPorts_def assign_def deref_def exampleAppConfig_def)

lemma example_platform_run:
  "initialize decimalText exampleEnv exampleClowder = (None, platformConfig)"
  by (simp add: initialize_def envConfig_closed example_env_run clowderConfig_def deref_def
        example_ports setDBConfig_def setBrokers_def setKafkaSSL_def setLogging_def
        setStorage_def assign_def example_bucket_info example_platform_parts
        example_clowder platformConfig_def defaultConfig_def)

subsection \<open>The endpoint\<close>

lemma Sprintf_url:
  "Sprintf ''%s://%s:%d'' [StrArg p, StrArg h, IntArg n] = p @ ''://'' @ h @ '':'' @ Itoa n"
  by simp

text \<open>
  Claim C2. For every TLS flag, host and port the endpoint is the scheme (\<open>https\<close> with
  TLS, \<open>http\<close> without), then \<open>://\<close>, the host, a colon and the port in decimal; the two
  examples of the specification hold; and a resolved configuration carries the endpoint
  derived this way, from the platform's object store when Clowder is enabled and from
  the keys \<open>MINIO_SSL\<close>, \<open>MINIO_HOST\<close> and \<open>MINIO_PORT\<close> otherwise.
\<close>

theorem endpoint_derivation:
  "buildBaseHttpUrl useTLS host port =
     (if useTLS then ''https'' else ''http'') @ ''://'' @ host @ '':'' @ Itoa port \<and>
   buildBaseHttpUrl False ''localhost'' 9099 = ''http://localhost:9099'' \<and>
   buildBaseHttpUrl True ''minio'' 443 = ''https://minio:443'' \<and>
   (resolves L env cl c \<longrightarrow>
      (if clowder.IsClowderEnabled cl
       then \<exists>cfg store. clowder.LoadedConfig cl = Some cfg \<and>
              AppConfig.ObjectStore cfg = Some store \<and>
              storageConfig.Endpoint (ExportConfig.StorageConfig c) =
                buildBaseHttpUrl (ObjectStoreConfig.Tls store)
                  (ObjectStoreConfig.Hostname store) (ObjectStoreConfig.Port store)
       else storageConfig.Endpoint (ExportConfig.StorageConfig c) =
              buildBaseHttpUrl (GetBool env (options env) ''MINIO_SSL'')
                (GetString env (options env) ''MINIO_HOST'')
                (GetInt L env (options env) ''MINIO_PORT'')))"
proof -
  have derive: "buildBaseHttpUrl useTLS host port =
     (if useTLS then ''https'' else ''http'') @ ''://'' @ host @ '':'' @ Itoa port"
    unfolding buildBaseHttpUrl_def Let_def Sprintf_url by simp
  have stages: "storageConfig.Endpoint (ExportConfig.StorageConfig c) =
              buildBaseHttpUrl (GetBool env (options env) ''MINIO_SSL'')
                (GetString env (options env) ''MINIO_HOST'')
                (GetInt L env (options env) ''MINIO_PORT'')"
    if "resolves L env cl c" "\<not> clowder.IsClowderEnabled cl"
  proof -
    from that have "c = envConfig L env"
      by (simp add: resolves_iff initialize_disabled)
    then show ?thesis
      by (simp add: envConfig_def Let_def)
  qed
  have platform: "\<exists>cfg store. clowder.LoadedConfig cl = Some cfg \<and>
              AppConfig.ObjectStore cfg = Some store \<and>
              storageConfig.Endpoint (ExportConfig.StorageConfig c) =
                buildBaseHttpUrl (ObjectStoreConfig.Tls store)
                  (ObjectStoreConfig.Hostname store) (ObjectStoreConfig.Port store)"
    if r: "resolves L env cl c" and on: "clowder.IsClowderEnabled cl"
  proof -
    from r on have "clowderConfig env cl (envConfig L env) = (None, c)"
      by (simp add: resolves_iff initialize_def Let_def)
    from clowderConfig_success [OF this] obtain cfg st where
        cfg: "clowder.LoadedConfig cl = Some cfg" and
        st: "platformStorage (exportBucketInfo env cl) cfg = Inr st" and
        c: "ExportConfig.StorageConfig c = st"
      by auto
    from st c cfg show ?thesis
      by (auto simp add: platformStorage_Inr)
  qed
  from derive url_examples stages platform show ?thesis by auto
qed

theorem endpoint_derivation_witness:
  "resolves decimalText exampleEnv exampleClowder platformConfig \<and>
   storageConfig.Endpoint (ExportConfig.StorageConfig platformConfig) = ''https://minio:443'' \<and>
   buildBaseHttpUrl True ''minio'' 443 = ''https://minio:443''"
  using endpoint_derivation [of True "''minio''" 443 decimalText exampleEnv exampleClowder
      platformConfig]
  by (simp add: resolves_iff example_platform_run platformConfig_def url_examples)

subsection \<open>Claims about the environment stage and the accessor\<close>

lemma resolves_disabled:
  "\<not> clowder.IsClowderEnabled cl \<Longrightarrow> resolves L env cl c \<longleftrightarrow> c = envOverDefaults L env"
  by (auto simp add: resolves_iff initialize_disabled envConfig_closed)

lemma noClowder_off: "\<not> clowder.IsClowderEnabled noClowder"
  by (simp add: noClowder_def)

text \<open>
  Claim C5. In a process without platform injection in which none of the recognised
  variables is set to a non-empty value, and with a library that reads the numeral
  \<open>9099\<close> as 9099, the resolution succeeds and every field has its documented default;
  only the host name and the pre-shared keys, whose variables (\<open>HOSTNAME\<close> and \<open>PSKS\<close>)
  are not in the table, are left open.
\<close>

theorem defaults_without_environment:
  assumes off: "\<not> clowder.IsClowderEnabled cl"
    and unset: "\<forall>k \<in> set recognizedKeys. getEnv env k = None"
    and numeral: "ToIntString L ''9099'' = 9099"
  shows "\<exists>c. resolves L env cl c \<and>
           c\<lparr>ExportConfig.Hostname := [], ExportConfig.Psks := [[]]\<rparr> = defaultConfig"
proof -
  have keep: "envOr env k conv d = d" if "k \<in> set recognizedKeys" for k and conv :: "string \<Rightarrow> 'a" and d
    using unset that by (simp add: envOr_def)
  have "(envOverDefaults L env)\<lparr>ExportConfig.Hostname := [], ExportConfig.Psks := [[]]\<rparr> =
          defaultConfig"
    by (simp add: envOverDefaults_def defaultConfig_def keep recognizedKeys_def numeral
          url_examples)
  with off show ?thesis
    by (simp add: resolves_disabled)
qed

theorem defaults_without_environment_witness:
  "\<not> clowder.IsClowderEnabled noClowder \<and> ToIntString decimalText ''9099'' = 9099 \<and>
   (\<exists>c. resolves decimalText Map.empty noClowder c \<and>
        c\<lparr>ExportConfig.Hostname := [], ExportConfig.Psks := [[]]\<rparr> = defaultConfig)"
  using defaults_without_environment [of noClowder Map.empty decimalText]
  by (simp add: noClowder_off getEnv_empty example_lib)




text \<open>
  Claim C10, as the code has it. Splitting the empty string on a comma gives the list
  with one empty string. Without platform injection the pre-shared keys are that list
  when \<open>EXPORTS_PSKS\<close> is unset or empty and the variable \<open>PSKS\<close>, which viper reads for
  the key, is unset or empty too; the brokers are that list when \<open>KAFKA_BROKERS\<close> is unset
  or empty.
\<close>

theorem empty_lists:
  assumes off: "\<not> clowder.IsClowderEnabled cl"
  shows "Split [] '','' = [[]] \<and>
         (\<exists>c. resolves L env cl c \<and>
            (getEnv env ''EXPORTS_PSKS'' = None \<and> getEnv env ''PSKS'' = None \<longrightarrow>
               ExportConfig.Psks c = [[]]) \<and>
            (getEnv env ''KAFKA_BROKERS'' = None \<longrightarrow>
               kafkaConfig.Brokers (ExportConfig.KafkaConfig c) = [[]]))"
proof -
  have split: "Split [] '','' = [[]]"
    by (simp add: Split_def)
  have psks: "ExportConfig.Psks (envOverDefaults L env) = [[]]"
    if "getEnv env ''EXPORTS_PSKS'' = None" "getEnv env ''PSKS'' = None"
    using that
    by (auto simp add: envOverDefaults_def envOr_def getEnv_def Getenv_def Split_def
          split: option.splits if_splits)
  have brokers: "kafkaConfig.Brokers (ExportConfig.KafkaConfig (envOverDefaults L env)) = [[]]"
    if "getEnv env ''KAFKA_BROKERS'' = None"
    using that by (simp add: envOverDefaults_def envOr_def)
  from off split psks brokers show ?thesis
    by (simp add: resolves_disabled)
qed

theorem empty_lists_witness:
  "\<not> clowder.IsClowderEnabled noClowder \<and>
   getEnv Map.empty ''EXPORTS_PSKS'' = None \<and> getEnv Map.empty ''PSKS'' = None \<and>
   getEnv Map.empty ''KAFKA_BROKERS'' = None \<and>
   (\<exists>c. resolves decimalText Map.empty noClowder c \<and> ExportConfig.Psks c = [[]] \<and>
        kafkaConfig.Brokers (ExportConfig.KafkaConfig c) = [[]])"
  using empty_lists [of noClowder decimalText Map.empty]
  by (simp add: noClowder_off getEnv_empty)

text \<open>
  Claim C10 as stated fails: with \<open>EXPORTS_PSKS\<close> and \<open>KAFKA_BROKERS\<close> unset and no
  platform, a variable \<open>PSKS\<close> decides the pre-shared keys.
\<close>

theorem psks_variable_counterexample:
  "[''PSKS'' \<mapsto> ''k1''] ''EXPORTS_PSKS'' = None \<and>
   [''PSKS'' \<mapsto> ''k1''] ''KAFKA_BROKERS'' = None \<and>
   \<not> clowder.IsClowderEnabled noClowder \<and>
   resolves decimalText [''PSKS'' \<mapsto> ''k1''] noClowder
     (defaultConfig\<lparr>ExportConfig.Psks := [''k1'']\<rparr>)"
proof -
  have "envOverDefaults decimalText [''PSKS'' \<mapsto> ''k1''] =
          defaultConfig\<lparr>ExportConfig.Psks := [''k1'']\<rparr>"
    by (simp add: envOverDefaults_def envOr_def getEnv_def defaultConfig_def example_lib
          url_examples Getenv_def Split_def)
  then show ?thesis
    by (simp add: resolves_disabled noClowder_off)
qed

text \<open>
  Claim C8. When a call of \<open>Get\<close> returns a pointer, the next call returns the same
  pointer and leaves the heap and the package variables as they are, whatever the
  environment and the platform hold by then: nothing is read again.
\<close>

theorem Get_idempotent:
  assumes "Get L env cl s = (Inr p, s1)"
  shows "Get L2 env2 cl2 s1 = (Inr p, s1)"
  using assms
  by (auto simp add: Get_def Let_def split: if_splits prod.splits option.splits)

theorem Get_idempotent_witness:
  "Get decimalText Map.empty noClowder start =
     (Inr (Some 0), \<lparr>heap = [defaultConfig], config = Some 0, doOnce = True\<rparr>) \<and>
   Get decimalText exampleEnv exampleClowder
       \<lparr>heap = [defaultConfig], config = Some 0, doOnce = True\<rparr> =
     (Inr (Some 0), \<lparr>heap = [defaultConfig], config = Some 0, doOnce = True\<rparr>)"
  using Get_idempotent [of decimalText Map.empty noClowder start "Some 0"
      "\<lparr>heap = [defaultConfig], config = Some 0, doOnce = True\<rparr>"
      decimalText exampleEnv exampleClowder]
  by (simp add: Get_start initialize_disabled noClowder_off envConfig_closed default_run)

subsection \<open>Claims about the platform stage\<close>

lemma resolves_enabled:
  assumes on: "clowder.IsClowderEnabled cl" and r: "resolves L env cl c"
  shows "clowderConfig env cl (envOverDefaults L env) = (None, c)"
  using on r by (simp add: resolves_iff initialize_def Let_def envConfig_closed)

lemma example_resolves: "resolves decimalText exampleEnv exampleClowder platformConfig"
  by (simp add: resolves_iff example_platform_run)

lemma bucket_name:
  "ObjectStoreBucket.RequestedName (exportBucketInfo env cl) =
     (case clowder.ObjectBuckets cl (envOr env ''EXPORT_SERVICE_BUCKET'' id []) of
        None \<Rightarrow> []
      | Some b \<Rightarrow> ObjectStoreBucket.RequestedName b)"
  by (simp add: exportBucketInfo_def get_storage zero_ObjectStoreBucket_def split: option.splits)

text \<open>
  A run with the platform that returns: the first broker of the platform's list decided
  the broker SSL policy.
\<close>

lemma first_broker_decides:
  assumes on: "clowder.IsClowderEnabled cl" and r: "resolves L env cl c"
  shows "\<exists>cfg kafka broker rest.
           clowder.LoadedConfig cl = Some cfg \<and> AppConfig.Kafka cfg = Some kafka \<and>
           KafkaConfig.Brokers kafka = broker # rest \<and>
           (case BrokerConfig.Authtype broker of
              None \<Rightarrow> kafkaConfig.SSLConfig (ExportConfig.KafkaConfig c) = zero_kafkaSSLConfig
            | Some authtype \<Rightarrow>
                \<exists>caPath sasl username password mechanism.
                  clowder.KafkaCa cl cfg broker = Inr caPath \<and>
                  BrokerConfig.Sasl broker = Some sasl \<and>
                  KafkaSASLConfig.Username sasl = Some username \<and>
                  KafkaSASLConfig.Password sasl = Some password \<and>
                  KafkaSASLConfig.SaslMechanism sasl = Some mechanism \<and>
                  kafkaConfig.SSLConfig (ExportConfig.KafkaConfig c) =
                    \<lparr>kafkaSSLConfig.CA = caPath,
                     kafkaSSLConfig.Username = username,
                     kafkaSSLConfig.Password = password,
                     kafkaSSLConfig.SASLMechanism = mechanism,
                     kafkaSSLConfig.Protocol =
                       (case BrokerConfig.SecurityProtocol broker of
                          None \<Rightarrow> ''sasl_ssl''
                        | Some declared \<Rightarrow> declared)\<rparr>)"
proof -
  from clowderConfig_success [OF resolves_enabled [OF on r]] obtain cfg ssl where
      cfg: "clowder.LoadedConfig cl = Some cfg" and
      ssl: "platformKafkaSSL cl cfg = Inr ssl" and
      stored: "kafkaConfig.SSLConfig (ExportConfig.KafkaConfig c) =
                 (case ssl of
                    None \<Rightarrow> kafkaConfig.SSLConfig (ExportConfig.KafkaConfig (envOverDefaults L env))
                  | Some p \<Rightarrow> p)"
    by auto
  have "kafkaConfig.SSLConfig (ExportConfig.KafkaConfig (envOverDefaults L env)) =
          zero_kafkaSSLConfig"
    by (simp add: envOverDefaults_def)
  with stored have policy: "kafkaConfig.SSLConfig (ExportConfig.KafkaConfig c) =
                 (case ssl of None \<Rightarrow> zero_kafkaSSLConfig | Some p \<Rightarrow> p)"
    by (cases ssl) simp_all
  from ssl obtain kafka broker rest where
      kafka: "AppConfig.Kafka cfg = Some kafka" "KafkaConfig.Brokers kafka = broker # rest" and
      decided: "case BrokerConfig.Authtype broker of
                  None \<Rightarrow> ssl = None
                | Some authtype \<Rightarrow> \<exists>p. brokerSSLConfig cl cfg broker = Inr p \<and> ssl = Some p"
    by (auto simp add: platformKafkaSSL_Inr)
  have "case BrokerConfig.Authtype broker of
              None \<Rightarrow> kafkaConfig.SSLConfig (ExportConfig.KafkaConfig c) = zero_kafkaSSLConfig
            | Some authtype \<Rightarrow>
                \<exists>caPath sasl username password mechanism.
                  clowder.KafkaCa cl cfg broker = Inr caPath \<and>
                  BrokerConfig.Sasl broker = Some sasl \<and>
                  KafkaSASLConfig.Username sasl = Some username \<and>
                  KafkaSASLConfig.Password sasl = Some password \<and>
                  KafkaSASLConfig.SaslMechanism sasl = Some mechanism \<and>
                  kafkaConfig.SSLConfig (ExportConfig.KafkaConfig c) =
                    \<lparr>kafkaSSLConfig.CA = caPath,
                     kafkaSSLConfig.Username = username,
                     kafkaSSLConfig.Password = password,
                     kafkaSSLConfig.SASLMechanism = mechanism,
                     kafkaSSLConfig.Protocol =
                       (case BrokerConfig.SecurityProtocol broker of
                          None \<Rightarrow> ''sasl_ssl''
                        | Some declared \<Rightarrow> declared)\<rparr>"
  proof (cases "BrokerConfig.Authtype broker")
    case None
    with decided policy show ?thesis by simp
  next
    case (Some authtype)
    with decided obtain p where p: "brokerSSLConfig cl cfg broker = Inr p" "ssl = Some p"
      by auto
    from p(1) policy p(2) Some show ?thesis
      by (auto simp add: brokerSSLConfig_Inr securityProtocol_def)
  qed
  with cfg kafka show ?thesis by blast
qed









text \<open>
  Claim C7. In a resolved configuration the CA path of the database SSL policy is absent
  when the platform is not enabled. When it is enabled, the path is present exactly when
  the platform's database declares an RDS CA, and it is then the path that materialising
  the bundle returned.
\<close>

theorem rds_ca_path:
  assumes r: "resolves L env cl c"
  shows "if clowder.IsClowderEnabled cl
         then \<exists>cfg db. clowder.LoadedConfig cl = Some cfg \<and> AppConfig.Database cfg = Some db \<and>
                (case DatabaseConfig.RdsCa db of
                   None \<Rightarrow> dbSSLConfig.RdsCa (dbConfig.SSLCfg (ExportConfig.DBConfig c)) = None
                 | Some bundle \<Rightarrow>
                     \<exists>path. clowder.RdsCa cl cfg = Inr path \<and>
                       dbSSLConfig.RdsCa (dbConfig.SSLCfg (ExportConfig.DBConfig c)) = Some path)
         else dbSSLConfig.RdsCa (dbConfig.SSLCfg (ExportConfig.DBConfig c)) = None"
proof (cases "clowder.IsClowderEnabled cl")
  case False
  with r show ?thesis
    by (simp add: resolves_disabled envOverDefaults_def)
next
  case True
  from clowderConfig_success [OF resolves_enabled [OF True r]] obtain cfg d where
      cfg: "clowder.LoadedConfig cl = Some cfg" and
      d: "platformDB cl cfg = Inr d" "ExportConfig.DBConfig c = d"
    by auto
  from d cfg True show ?thesis
    by (auto simp add: platformDB_Inr split: option.splits)
qed

theorem rds_ca_path_witness:
  "resolves decimalText exampleEnv exampleClowder platformConfig \<and>
   clowder.IsClowderEnabled exampleClowder \<and>
   clowder.RdsCa exampleClowder exampleAppConfig = Inr ''/tmp/rdsca'' \<and>
   dbSSLConfig.RdsCa (dbConfig.SSLCfg (ExportConfig.DBConfig platformConfig)) =
     Some ''/tmp/rdsca''"
proof -
  have ca: "clowder.RdsCa exampleClowder exampleAppConfig = Inr ''/tmp/rdsca''"
    by (simp add: exampleClowder_def)
  have path: "dbSSLConfig.RdsCa (dbConfig.SSLCfg (ExportConfig.DBConfig platformConfig)) =
     Some ''/tmp/rdsca''"
    by (simp add: platformConfig_def)
  from rds_ca_path [OF example_resolves] example_clowder(1) example_resolves ca path
  show ?thesis by simp
qed

text \<open>
  Claim C1, as the code has it. When the platform is enabled and the resolution succeeds,
  the three ports, the whole database configuration and the whole object-storage
  configuration are the platform's: the CA path of the database is the materialised
  bundle when the database declares one and absent otherwise, and the bucket is the
  requested name of the registry entry that the variable \<open>EXPORT_SERVICE_BUCKET\<close>
  selects. The logging configuration, absent after the environment stage, is present with
  the platform's CloudWatch values. Of the broker configuration only the broker list is
  replaced, and the SSL policy, which is the first broker's when that broker has an
  authentication type and the zero value otherwise: group id, topic and the event
  metadata keep the values of the environment stage.
\<close>

theorem platform_replaces:
  assumes on: "clowder.IsClowderEnabled cl" and r: "resolves L env cl c"
  shows "\<exists>cfg pub priv db ca store bucket rest accessKey secretKey cw kafka broker others policy.
           clowder.LoadedConfig cl = Some cfg \<and>
           AppConfig.PublicPort cfg = Some pub \<and> AppConfig.PrivatePort cfg = Some priv \<and>
           AppConfig.Database cfg = Some db \<and> AppConfig.ObjectStore cfg = Some store \<and>
           ObjectStoreConfig.Buckets store = bucket # rest \<and>
           ObjectStoreBucket.AccessKey bucket = Some accessKey \<and>
           ObjectStoreBucket.SecretKey bucket = Some secretKey \<and>
           LoggingConfig.Cloudwatch (AppConfig.Logging cfg) = Some cw \<and>
           AppConfig.Kafka cfg = Some kafka \<and> KafkaConfig.Brokers kafka = broker # others \<and>
           ExportConfig.PublicPort c = pub \<and>
           ExportConfig.MetricsPort c = AppConfig.MetricsPort cfg \<and>
           ExportConfig.PrivatePort c = priv \<and>
           (case DatabaseConfig.RdsCa db of
              None \<Rightarrow> ca = None
            | Some bundle \<Rightarrow> \<exists>path. clowder.RdsCa cl cfg = Inr path \<and> ca = Some path) \<and>
           ExportConfig.DBConfig c =
             \<lparr>dbConfig.User = DatabaseConfig.Username db,
              dbConfig.Password = DatabaseConfig.Password db,
              dbConfig.Hostname = DatabaseConfig.Hostname db,
              dbConfig.Port = Itoa (DatabaseConfig.Port db),
              dbConfig.Name = DatabaseConfig.Name db,
              dbConfig.SSLCfg =
                \<lparr>dbSSLConfig.RdsCa = ca, dbSSLConfig.SSLMode = DatabaseConfig.SslMode db\<rparr>\<rparr> \<and>
           ExportConfig.StorageConfig c =
             \<lparr>storageConfig.Bucket =
                (case clowder.ObjectBuckets cl (envOr env ''EXPORT_SERVICE_BUCKET'' id []) of
                   None \<Rightarrow> []
                 | Some b \<Rightarrow> ObjectStoreBucket.RequestedName b),
              storageConfig.Endpoint =
                buildBaseHttpUrl (ObjectStoreConfig.Tls store)
                  (ObjectStoreConfig.Hostname store) (ObjectStoreConfig.Port store),
              storageConfig.AccessKey = accessKey,
              storageConfig.SecretKey = secretKey,
              storageConfig.UseSSL = ObjectStoreConfig.Tls store\<rparr> \<and>
           ExportConfig.Logging (envOverDefaults L env) = None \<and>
           ExportConfig.Logging c =
             Some \<lparr>loggingConfig.AccessKeyID = CloudWatchConfig.AccessKeyId cw,
                   loggingConfig.SecretAccessKey = CloudWatchConfig.SecretAccessKey cw,
                   loggingConfig.LogGroup = CloudWatchConfig.LogGroup cw,
                   loggingConfig.Region = CloudWatchConfig.Region cw\<rparr> \<and>
           (case BrokerConfig.Authtype broker of
              None \<Rightarrow> policy = zero_kafkaSSLConfig
            | Some authtype \<Rightarrow>
                \<exists>caPath sasl username password mechanism.
                  clowder.KafkaCa cl cfg broker = Inr caPath \<and>
                  BrokerConfig.Sasl broker = Some sasl \<and>
                  KafkaSASLConfig.Username sasl = Some username \<and>
                  KafkaSASLConfig.Password sasl = Some password \<and>
                  KafkaSASLConfig.SaslMechanism sasl = Some mechanism \<and>
                  policy =
                    \<lparr>kafkaSSLConfig.CA = caPath,
                     kafkaSSLConfig.Username = username,
                     kafkaSSLConfig.Password = password,
                     kafkaSSLConfig.SASLMechanism = mechanism,
                     kafkaSSLConfig.Protocol =
                       (case BrokerConfig.SecurityProtocol broker of
                          None \<Rightarrow> ''sasl_ssl''
                        | Some declared \<Rightarrow> declared)\<rparr>) \<and>
           ExportConfig.KafkaConfig c =
             (ExportConfig.KafkaConfig (envOverDefaults L env))
               \<lparr>kafkaConfig.Brokers := clowder.KafkaServers cl,
                kafkaConfig.SSLConfig := policy\<rparr>"
proof -
  from clowderConfig_success [OF resolves_enabled [OF on r]] obtain cfg pub priv d ssl lg st
    where cfg: "clowder.LoadedConfig cl = Some cfg" and
      ports: "AppConfig.PublicPort cfg = Some pub" "AppConfig.PrivatePort cfg = Some priv" and
      d: "platformDB cl cfg = Inr d" and lg: "platformLogging cfg = Inr lg" and
      st: "platformStorage (exportBucketInfo env cl) cfg = Inr st" and
      c: "c = (envOverDefaults L env)\<lparr>ExportConfig.PublicPort := pub,
               ExportConfig.MetricsPort := AppConfig.MetricsPort cfg,
               ExportConfig.PrivatePort := priv,
               ExportConfig.DBConfig := d,
               ExportConfig.KafkaConfig :=
                 (ExportConfig.KafkaConfig (envOverDefaults L env))
                   \<lparr>kafkaConfig.Brokers := clowder.KafkaServers cl,
                    kafkaConfig.SSLConfig :=
                      (case ssl of
                         None \<Rightarrow>
                           kafkaConfig.SSLConfig (ExportConfig.KafkaConfig (envOverDefaults L env))
                       | Some policy \<Rightarrow> policy)\<rparr>,
               ExportConfig.Logging := Some lg,
               ExportConfig.StorageConfig := st\<rparr>"
    by blast
  from d obtain db ca where db: "AppConfig.Database cfg = Some db" and
      ca: "case DatabaseConfig.RdsCa db of
             None \<Rightarrow> ca = None
           | Some bundle \<Rightarrow> \<exists>path. clowder.RdsCa cl cfg = Inr path \<and> ca = Some path" and
      d': "d = \<lparr>dbConfig.User = DatabaseConfig.Username db,
              dbConfig.Password = DatabaseConfig.Password db,
              dbConfig.Hostname = DatabaseConfig.Hostname db,
              dbConfig.Port = Itoa (DatabaseConfig.Port db),
              dbConfig.Name = DatabaseConfig.Name db,
              dbConfig.SSLCfg =
                \<lparr>dbSSLConfig.RdsCa = ca, dbSSLConfig.SSLMode = DatabaseConfig.SslMode db\<rparr>\<rparr>"
    unfolding platformDB_Inr by blast
  from lg obtain cw where cw: "LoggingConfig.Cloudwatch (AppConfig.Logging cfg) = Some cw" and
      lg': "lg = \<lparr>loggingConfig.AccessKeyID = CloudWatchConfig.AccessKeyId cw,
                   loggingConfig.SecretAccessKey = CloudWatchConfig.SecretAccessKey cw,
                   loggingConfig.LogGroup = CloudWatchConfig.LogGroup cw,
                   loggingConfig.Region = CloudWatchConfig.Region cw\<rparr>"
    by (auto simp add: platformLogging_Inr)
  from st obtain store bucket rest accessKey secretKey where
      store: "AppConfig.ObjectStore cfg = Some store"
        "ObjectStoreConfig.Buckets store = bucket # rest"
        "ObjectStoreBucket.AccessKey bucket = Some accessKey"
        "ObjectStoreBucket.SecretKey bucket = Some secretKey" and
      st': "st = \<lparr>storageConfig.Bucket = ObjectStoreBucket.RequestedName (exportBucketInfo env cl),
              storageConfig.Endpoint =
                buildBaseHttpUrl (ObjectStoreConfig.Tls store)
                  (ObjectStoreConfig.Hostname store) (ObjectStoreConfig.Port store),
              storageConfig.AccessKey = accessKey,
              storageConfig.SecretKey = secretKey,
              storageConfig.UseSSL = ObjectStoreConfig.Tls store\<rparr>"
    by (auto simp add: platformStorage_Inr)
  from first_broker_decides [OF on r] cfg obtain kafka broker others where
      kafka: "AppConfig.Kafka cfg = Some kafka" "KafkaConfig.Brokers kafka = broker # others" and
      decided: "case BrokerConfig.Authtype broker of
              None \<Rightarrow> kafkaConfig.SSLConfig (ExportConfig.KafkaConfig c) = zero_kafkaSSLConfig
            | Some authtype \<Rightarrow>
                \<exists>caPath sasl username password mechanism.
                  clowder.KafkaCa cl cfg broker = Inr caPath \<and>
                  BrokerConfig.Sasl broker = Some sasl \<and>
                  KafkaSASLConfig.Username sasl = Some username \<and>
                  KafkaSASLConfig.Password sasl = Some password \<and>
                  KafkaSASLConfig.SaslMechanism sasl = Some mechanism \<and>
                  kafkaConfig.SSLConfig (ExportConfig.KafkaConfig c) =
                    \<lparr>kafkaSSLConfig.CA = caPath,
                     kafkaSSLConfig.Username = username,
                     kafkaSSLConfig.Password = password,
                     kafkaSSLConfig.SASLMechanism = mechanism,
                     kafkaSSLConfig.Protocol =
                       (case BrokerConfig.SecurityProtocol broker of
                          None \<Rightarrow> ''sasl_ssl''
                        | Some declared \<Rightarrow> declared)\<rparr>"
    by auto
  have absent: "ExportConfig.Logging (envOverDefaults L env) = None"
    by (simp add: envOverDefaults_def)
  have fields: "ExportConfig.PublicPort c = pub"
      "ExportConfig.MetricsPort c = AppConfig.MetricsPort cfg"
      "ExportConfig.PrivatePort c = priv" "ExportConfig.DBConfig c = d"
      "ExportConfig.StorageConfig c = st" "ExportConfig.Logging c = Some lg"
    by (simp_all add: c)
  have broker_config: "ExportConfig.KafkaConfig c =
         (ExportConfig.KafkaConfig (envOverDefaults L env))
           \<lparr>kafkaConfig.Brokers := clowder.KafkaServers cl,
            kafkaConfig.SSLConfig := kafkaConfig.SSLConfig (ExportConfig.KafkaConfig c)\<rparr>"
    by (simp add: c)
  from cfg ports db ca store cw kafka absent fields d' lg' st' decided broker_config
  show ?thesis
    unfolding bucket_name by blast
qed

theorem platform_replaces_witness:
  "clowder.IsClowderEnabled exampleClowder \<and>
   resolves decimalText exampleEnv exampleClowder platformConfig \<and>
   exampleEnv ''PGSQL_USER'' = Some ''alice'' \<and>
   dbConfig.User (ExportConfig.DBConfig platformConfig) = ''bob'' \<and>
   dbSSLConfig.RdsCa (dbConfig.SSLCfg (ExportConfig.DBConfig platformConfig)) =
     Some ''/tmp/rdsca'' \<and>
   kafkaSSLConfig.CA (kafkaConfig.SSLConfig (ExportConfig.KafkaConfig platformConfig)) =
     ''/tmp/kafkaca'' \<and>
   ExportConfig.Logging (envOverDefaults decimalText exampleEnv) = None \<and>
   ExportConfig.Logging platformConfig \<noteq> None"
proof -
  have env: "exampleEnv ''PGSQL_USER'' = Some ''alice''"
    by (simp add: exampleEnv_def)
  have fields: "dbConfig.User (ExportConfig.DBConfig platformConfig) = ''bob''"
      "dbSSLConfig.RdsCa (dbConfig.SSLCfg (ExportConfig.DBConfig platformConfig)) =
         Some ''/tmp/rdsca''"
      "kafkaSSLConfig.CA (kafkaConfig.SSLConfig (ExportConfig.KafkaConfig platformConfig)) =
         ''/tmp/kafkaca''"
      "ExportConfig.Logging platformConfig \<noteq> None"
    by (simp_all add: platformConfig_def)
  have absent: "ExportConfig.Logging (envOverDefaults decimalText exampleEnv) = None"
    by (simp add: envOverDefaults_def)
  from platform_replaces [OF example_clowder(1) example_resolves]
    example_clowder(1) example_resolves env fields absent
  show ?thesis by simp
qed

lemma empty_env_platform_run:
  "initialize decimalText Map.empty exampleClowder =
     (None, platformConfig
        \<lparr>ExportConfig.StorageConfig :=
           (ExportConfig.StorageConfig platformConfig)\<lparr>storageConfig.Bucket := []\<rparr>,
         ExportConfig.KafkaConfig :=
           (ExportConfig.KafkaConfig platformConfig)\<lparr>kafkaConfig.GroupID := ''export''\<rparr>\<rparr>)"
proof -
  have storage: "platformStorage zero_ObjectStoreBucket exampleAppConfig =
      Inr ((ExportConfig.StorageConfig platformConfig)\<lparr>storageConfig.Bucket := []\<rparr>)"
    by (simp add: platformStorage_def deref_def first_def exampleAppConfig_def
          exampleBucket_def zero_ObjectStoreBucket_def platformConfig_def url_examples)
  show ?thesis
    by (simp add: initialize_def envConfig_closed default_run clowderConfig_def deref_def
        example_ports setDBConfig_def setBrokers_def setKafkaSSL_def setLogging_def
        setStorage_def assign_def example_bucket_info example_platform_parts storage
        example_clowder platformConfig_def defaultConfig_def)
qed

text \<open>
  Claim C1 as stated fails for the broker configuration: on one and the same platform the
  resolved group id is the environment's. With \<open>KAFKA_GROUP_ID\<close> set to \<open>reports\<close> it is
  \<open>reports\<close>, with an empty environment it is the default \<open>export\<close>; the platform supplies
  neither.
\<close>

theorem broker_fields_counterexample:
  "clowder.IsClowderEnabled exampleClowder \<and>
   exampleEnv ''KAFKA_GROUP_ID'' = Some ''reports'' \<and>
   resolves decimalText exampleEnv exampleClowder platformConfig \<and>
   kafkaConfig.GroupID (ExportConfig.KafkaConfig platformConfig) = ''reports'' \<and>
   (\<exists>c. resolves decimalText Map.empty exampleClowder c \<and>
        kafkaConfig.GroupID (ExportConfig.KafkaConfig c) = ''export'')"
proof -
  have env: "exampleEnv ''KAFKA_GROUP_ID'' = Some ''reports''"
    by (simp add: exampleEnv_def)
  have group: "kafkaConfig.GroupID (ExportConfig.KafkaConfig platformConfig) = ''reports''"
    by (simp add: platformConfig_def)
  have other: "\<exists>c. resolves decimalText Map.empty exampleClowder c \<and>
        kafkaConfig.GroupID (ExportConfig.KafkaConfig c) = ''export''"
    by (simp add: resolves_iff empty_env_platform_run)
  from example_clowder(1) env example_resolves group other show ?thesis by simp
qed

subsection \<open>A CA bundle that cannot be written\<close>

lemma assign_unchanged:
  "assign rhs store c = (Some p, c') \<Longrightarrow> c' = c"
  by (auto simp add: assign_def split: sum.splits)

lemma assign_Inl: "assign (Inl p) store c = (Some p, c)"
  by (simp add: assign_def)

lemma setPorts_frame:
  "setPorts cfg c = (raised, c') \<Longrightarrow>
     ExportConfig.Logging c' = ExportConfig.Logging c \<and>
     ExportConfig.StorageConfig c' = ExportConfig.StorageConfig c"
  by (auto simp add: setPorts_def assign_def deref_def split: option.splits)

lemma rdsCaFails_platformDB:
  "clowder.LoadedConfig cl = Some cfg \<Longrightarrow> rdsCaFails cl \<Longrightarrow> \<exists>p. platformDB cl cfg = Inl p"
  by (auto simp add: rdsCaFails_def platformDB_def getRdsCaPath_def deref_def isl_def
        split: option.splits)

lemma kafkaCaFails_platformKafkaSSL:
  "clowder.LoadedConfig cl = Some cfg \<Longrightarrow> kafkaCaFails cl \<Longrightarrow>
     \<exists>p. platformKafkaSSL cl cfg = Inl p"
  by (auto simp add: kafkaCaFails_def platformKafkaSSL_def brokerSSLConfig_def deref_def
        first_def isl_def split: option.splits list.splits)

text \<open>
  When a CA bundle cannot be written the initialisation ends with a panic before the
  logging and storage steps: the struct then still has no logging configuration and the
  storage configuration of the environment stage.
\<close>

lemma caFails_initialize:
  assumes fails: "caFails cl"
  shows "\<exists>p c. initialize L env cl = (Some p, c) \<and> ExportConfig.Logging c = None \<and>
           ExportConfig.StorageConfig c = ExportConfig.StorageConfig (envOverDefaults L env)"
proof -
  define c0 where "c0 = envOverDefaults L env"
  have c0: "ExportConfig.Logging c0 = None"
    by (simp add: c0_def envOverDefaults_def)
  from fails have on: "clowder.IsClowderEnabled cl" and
      which: "rdsCaFails cl \<or> kafkaCaFails cl"
    by (simp_all add: caFails_def)
  from which obtain cfg where cfg: "clowder.LoadedConfig cl = Some cfg"
    by (auto simp add: rdsCaFails_def kafkaCaFails_def split: option.splits)
  let ?rest = "[setLogging cfg, setStorage (exportBucketInfo env cl) cfg]"
  have init: "initialize L env cl =
      steps (setPorts cfg # setDBConfig cl cfg # setBrokers cl # setKafkaSSL cl cfg # ?rest) c0"
    using on cfg by (simp add: initialize_def envConfig_closed clowderConfig_def deref_def c0_def)
  obtain r1 c1 where s1: "setPorts cfg c0 = (r1, c1)"
    by (cases "setPorts cfg c0")
  from setPorts_frame [OF s1] c0 have c1: "ExportConfig.Logging c1 = None"
      "ExportConfig.StorageConfig c1 = ExportConfig.StorageConfig c0"
    by simp_all
  have "\<exists>p c. steps (setPorts cfg # setDBConfig cl cfg # setBrokers cl # setKafkaSSL cl cfg # ?rest) c0
                 = (Some p, c) \<and> ExportConfig.Logging c = None \<and>
               ExportConfig.StorageConfig c = ExportConfig.StorageConfig c0"
  proof (cases r1)
    case (Some p)
    with s1 c1 show ?thesis by simp
  next
    case None
    note ports = this
    show ?thesis
    proof (cases "platformDB cl cfg")
      case (Inl p)
      with s1 ports c1 show ?thesis
        by (simp add: setDBConfig_def assign_def)
    next
      case (Inr d)
      with rdsCaFails_platformDB [OF cfg] which have "kafkaCaFails cl"
        by auto
      from kafkaCaFails_platformKafkaSSL [OF cfg this] obtain p where
          "platformKafkaSSL cl cfg = Inl p"
        by blast
      with s1 ports c1 Inr show ?thesis
        by (simp add: setDBConfig_def setBrokers_def setKafkaSSL_def assign_def)
    qed
  qed
  with init show ?thesis
    by (simp add: c0_def)
qed

text \<open>
  Claim C4, as the code has it. When the platform is enabled and a CA bundle cannot be
  written, the first call of \<open>Get\<close> returns no value: it panics. The struct is not
  withheld, though. The package variable already points to it, without a logging
  configuration and with the storage configuration of the environment stage, and the
  once-guard is spent, so every later call returns that pointer without resolving again.
\<close>

theorem ca_failure_panics:
  assumes fails: "caFails cl"
  shows "\<exists>p s c. Get L env cl start = (Inl p, s) \<and>
           (\<forall>L2 env2 cl2. Get L2 env2 cl2 s = (Inr (Some 0), s)) \<and>
           load s (Some 0) = Some c \<and> ExportConfig.Logging c = None \<and>
           ExportConfig.StorageConfig c = ExportConfig.StorageConfig (envOverDefaults L env)"
proof -
  from caFails_initialize [OF fails] obtain p c where
      run: "initialize L env cl = (Some p, c)" and
      partial: "ExportConfig.Logging c = None"
        "ExportConfig.StorageConfig c = ExportConfig.StorageConfig (envOverDefaults L env)"
    by blast
  let ?s = "\<lparr>heap = [c], config = Some 0, doOnce = True\<rparr>"
  from run have first_call: "Get L env cl start = (Inl p, ?s)"
    by (simp add: Get_start)
  have later: "Get L2 env2 cl2 ?s = (Inr (Some 0), ?s)" for L2 env2 cl2
    by (simp add: Get_def)
  have stored: "load ?s (Some 0) = Some c"
    by (simp add: load_def)
  from first_call later stored partial show ?thesis by blast
qed

lemma failing_clowder:
  "clowder.IsClowderEnabled failingClowder"
  "clowder.LoadedConfig failingClowder = Some exampleAppConfig"
  "clowder.RdsCa failingClowder exampleAppConfig = Inl ''disk full''"
  by (simp_all add: failingClowder_def exampleClowder_def)

lemma example_declares_ca:
  "\<exists>db. AppConfig.Database exampleAppConfig = Some db \<and> DatabaseConfig.RdsCa db \<noteq> None"
  by (simp add: exampleAppConfig_def)

lemma failing_caFails: "caFails failingClowder"
  using example_declares_ca
  by (auto simp add: caFails_def rdsCaFails_def failing_clowder)

lemma failing_run:
  "initialize decimalText exampleEnv failingClowder =
     (Some (Panic ''RDS CA failed to write: disk full''), partialConfig)"
proof -
  have db: "platformDB failingClowder exampleAppConfig =
      Inl (Panic ''RDS CA failed to write: disk full'')"
    using example_declares_ca
    by (auto simp add: platformDB_def getRdsCaPath_def deref_def failing_clowder)
  show ?thesis
    by (simp add: initialize_def envConfig_closed example_env_run clowderConfig_def deref_def
          failing_clowder example_ports setDBConfig_def assign_def db partialConfig_def)
qed

theorem ca_failure_panics_witness:
  "caFails failingClowder \<and>
   Get decimalText exampleEnv failingClowder start =
     (Inl (Panic ''RDS CA failed to write: disk full''),
      \<lparr>heap = [partialConfig], config = Some 0, doOnce = True\<rparr>)"
  using ca_failure_panics [OF failing_caFails, of decimalText exampleEnv]
  by (simp add: failing_caFails Get_start failing_run)

text \<open>
  Claim C4 as stated fails in its second half. On the platform that cannot write the RDS
  CA the first call panics, and a call made after it (by a caller that recovered the
  panic) returns a pointer to a partially populated struct: the platform's ports, but the
  environment's database user, not the platform's, and no logging configuration.
\<close>

theorem partial_snapshot_counterexample:
  "caFails failingClowder \<and>
   fst (Get decimalText exampleEnv failingClowder start) =
     Inl (Panic ''RDS CA failed to write: disk full'') \<and>
   fst (Get decimalText exampleEnv failingClowder
          (snd (Get decimalText exampleEnv failingClowder start))) = Inr (Some 0) \<and>
   load (snd (Get decimalText exampleEnv failingClowder start)) (Some 0) = Some partialConfig \<and>
   ExportConfig.PublicPort partialConfig = 8001 \<and>
   dbConfig.User (ExportConfig.DBConfig partialConfig) = ''alice'' \<and>
   ExportConfig.Logging partialConfig = None"
proof -
  have fields: "ExportConfig.PublicPort partialConfig = 8001"
      "dbConfig.User (ExportConfig.DBConfig partialConfig) = ''alice''"
      "ExportConfig.Logging partialConfig = None"
    by (simp_all add: partialConfig_def defaultConfig_def)
  have first_call: "Get decimalText exampleEnv failingClowder start =
     (Inl (Panic ''RDS CA failed to write: disk full''),
      \<lparr>heap = [partialConfig], config = Some 0, doOnce = True\<rparr>)"
    by (simp add: Get_start failing_run)
  have calls: "fst (Get decimalText exampleEnv failingClowder start) =
       Inl (Panic ''RDS CA failed to write: disk full'')"
    "fst (Get decimalText exampleEnv failingClowder
          (snd (Get decimalText exampleEnv failingClowder start))) = Inr (Some 0)"
    "load (snd (Get decimalText exampleEnv failingClowder start)) (Some 0) = Some partialConfig"
    unfolding first_call by (simp_all add: Get_def load_def)
  from failing_caFails fields calls show ?thesis by simp
qed

end
